theory Spec2Isabelle
  imports Main
begin

section \<open>JavaScript strings\<close>

text \<open>
  A JavaScript string is a sequence of UTF-16 code units. It is modelled as a
  \<open>string\<close> whose characters are the code units; the model therefore covers the
  strings whose code units are all below 256. \<open>length\<close> is the \<open>.length\<close>
  property, and positions are list positions.
\<close>

definition codeUnit :: "char \<Rightarrow> nat" where
  "codeUnit c = of_char c"

definition isLineTerminator :: "char \<Rightarrow> bool" where
  "isLineTerminator c = (c = CHR 0x0A \<or> c = CHR 0x0D)"

text \<open>The class \<open>\s\<close>, which is also what \<open>trim\<close> strips: tab, LF, VT, FF, CR, space, NBSP.\<close>

definition isSpace :: "char \<Rightarrow> bool" where
  "isSpace c = (c = CHR 0x09 \<or> c = CHR 0x0A \<or> c = CHR 0x0B \<or> c = CHR 0x0C
     \<or> c = CHR 0x0D \<or> c = CHR 0x20 \<or> c = CHR 0xA0)"

definition isDigit :: "char \<Rightarrow> bool" where
  "isDigit c = (48 \<le> codeUnit c \<and> codeUnit c \<le> 57)"

definition isAsciiLetter :: "char \<Rightarrow> bool" where
  "isAsciiLetter c = ((65 \<le> codeUnit c \<and> codeUnit c \<le> 90) \<or> (97 \<le> codeUnit c \<and> codeUnit c \<le> 122))"

text \<open>The class \<open>\w\<close>.\<close>

definition isWord :: "char \<Rightarrow> bool" where
  "isWord c = (isAsciiLetter c \<or> isDigit c \<or> c = CHR ''_'')"

definition trimStart :: "string \<Rightarrow> string" where
  "trimStart s = dropWhile isSpace s"

definition trimEnd :: "string \<Rightarrow> string" where
  "trimEnd s = rev (dropWhile isSpace (rev s))"

definition trim :: "string \<Rightarrow> string" where
  "trim s = trimEnd (trimStart s)"

definition startsWith :: "string \<Rightarrow> string \<Rightarrow> bool" where
  "startsWith s p = (take (length p) s = p)"

definition endsWith :: "string \<Rightarrow> string \<Rightarrow> bool" where
  "endsWith s p = (length p \<le> length s \<and> drop (length s - length p) s = p)"

fun includesStr :: "string \<Rightarrow> string \<Rightarrow> bool" where
  "includesStr [] p = (p = [])"
| "includesStr (c # cs) p = (startsWith (c # cs) p \<or> includesStr cs p)"

text \<open>\<open>s.lastIndexOf(c)\<close> for a one-character needle: \<open>-1\<close> when \<open>c\<close> does not occur.\<close>

definition lastIndexOf :: "string \<Rightarrow> char \<Rightarrow> int" where
  "lastIndexOf s c = int (length (dropWhile (\<lambda>x. x \<noteq> c) (rev s))) - 1"

text \<open>\<open>s.substring(a, b)\<close>: both bounds are clamped to \<open>[0, length]\<close> and swapped if needed.\<close>

definition substring :: "string \<Rightarrow> int \<Rightarrow> int \<Rightarrow> string" where
  "substring s a b =
     (let n = int (length s);
          a' = max 0 (min a n);
          b' = max 0 (min b n);
          lo = min a' b';
          hi = max a' b'
      in take (nat (hi - lo)) (drop (nat lo) s))"

text \<open>\<open>xs.join(sep)\<close>.\<close>

fun join :: "string \<Rightarrow> string list \<Rightarrow> string" where
  "join sep [] = []"
| "join sep [x] = x"
| "join sep (x # y # ys) = x @ sep @ join sep (y # ys)"

text \<open>\<open>s.split(c)\<close> for a one-character separator; the result is never empty.\<close>

fun split :: "char \<Rightarrow> string \<Rightarrow> string list" where
  "split c [] = [[]]"
| "split c (x # xs) =
     (if x = c then [] # split c xs
      else (case split c xs of [] \<Rightarrow> [[x]] | y # ys \<Rightarrow> (x # y) # ys))"

text \<open>\<open>toLowerCase\<close> on code units below 256: A-Z and the Latin-1 capitals.\<close>

definition toLowerChar :: "char \<Rightarrow> char" where
  "toLowerChar c =
     (let n = codeUnit c
      in if (65 \<le> n \<and> n \<le> 90) \<or> (192 \<le> n \<and> n \<le> 222 \<and> n \<noteq> 215)
         then char_of (n + 32) else c)"

definition toLowerCase :: "string \<Rightarrow> string" where
  "toLowerCase s = map toLowerChar s"

text \<open>\<open>new Blob([s]).size\<close>: the length of the UTF-8 encoding; a code unit from
  128 to 255 takes two bytes.\<close>

definition blobSize :: "string \<Rightarrow> nat" where
  "blobSize s = sum_list (map (\<lambda>c. if codeUnit c < 128 then 1 else 2) s)"

text \<open>\<open>[...new Set(xs)]\<close>: the first occurrence of each element, in order.\<close>

fun uniqueInOrder :: "'a list \<Rightarrow> 'a list" where
  "uniqueInOrder [] = []"
| "uniqueInOrder (x # xs) = x # uniqueInOrder (filter (\<lambda>y. y \<noteq> x) xs)"


section \<open>Regular expressions\<close>

text \<open>
  A regular expression of the source is modelled by a matcher: given the text that precedes a
  position and the text from the position on, the length of the match that the
  backtracking engine finds at that position, if there is one.
\<close>

type_synonym matcher = "string \<Rightarrow> string \<Rightarrow> nat option"

text \<open>
  The replacement patterns of \<open>String.prototype.replace\<close> for an expression without
  capture groups: \<open>$$\<close>, \<open>$&\<close>, \<open>$`\<close> and \<open>$'\<close>; any other \<open>$\<close> stands for itself.
\<close>

fun expandTemplate :: "string \<Rightarrow> string \<Rightarrow> string \<Rightarrow> string \<Rightarrow> string" where
  "expandTemplate [] matched pre post = []"
| "expandTemplate [c] matched pre post = [c]"
| "expandTemplate (c # d # t) matched pre post =
     (if c = CHR ''$'' \<and> d = CHR ''$'' then CHR ''$'' # expandTemplate t matched pre post
      else if c = CHR ''$'' \<and> d = CHR ''&'' then matched @ expandTemplate t matched pre post
      else if c = CHR ''$'' \<and> d = CHR 0x60 then pre @ expandTemplate t matched pre post
      else if c = CHR ''$'' \<and> d = CHR 0x27 then post @ expandTemplate t matched pre post
      else c # expandTemplate (d # t) matched pre post)"

text \<open>\<open>s.replace(re, template)\<close> for an expression without the flag \<open>g\<close>: the leftmost
  match is replaced.\<close>

fun replaceFirstFrom :: "matcher \<Rightarrow> string \<Rightarrow> string \<Rightarrow> string \<Rightarrow> string" where
  "replaceFirstFrom m template pre [] =
     (case m pre [] of
        Some n \<Rightarrow> pre @ expandTemplate template [] pre []
      | None \<Rightarrow> pre)"
| "replaceFirstFrom m template pre (c # cs) =
     (case m pre (c # cs) of
        Some n \<Rightarrow>
          pre @ expandTemplate template (take n (c # cs)) pre (drop n (c # cs))
            @ drop n (c # cs)
      | None \<Rightarrow> replaceFirstFrom m template (pre @ [c]) cs)"

definition replaceFirst :: "matcher \<Rightarrow> string \<Rightarrow> string \<Rightarrow> string" where
  "replaceFirst m template s = replaceFirstFrom m template [] s"

text \<open>With the flag \<open>g\<close>: every match, the search resuming where the last match ended,
  one position further when the match was empty.\<close>

function replaceAllFrom :: "matcher \<Rightarrow> string \<Rightarrow> string \<Rightarrow> string \<Rightarrow> string" where
  "replaceAllFrom m template pre rest =
     (case m pre rest of
        Some n \<Rightarrow>
          expandTemplate template (take n rest) pre (drop n rest)
            @ (if n = 0 \<or> rest = []
               then (case rest of [] \<Rightarrow> [] | c # cs \<Rightarrow> c # replaceAllFrom m template (pre @ [c]) cs)
               else replaceAllFrom m template (pre @ take n rest) (drop n rest))
      | None \<Rightarrow>
          (case rest of [] \<Rightarrow> [] | c # cs \<Rightarrow> c # replaceAllFrom m template (pre @ [c]) cs))"
  by pat_completeness auto
termination
  by (relation "measure (\<lambda>(m, template, pre, rest). length rest)") auto

declare replaceAllFrom.simps [simp del]

definition replaceAll :: "matcher \<Rightarrow> string \<Rightarrow> string \<Rightarrow> string" where
  "replaceAll m template s = replaceAllFrom m template [] s"

text \<open>\<open>s.match(re)\<close> with the flag \<open>g\<close>, and \<open>s.matchAll(re)\<close>: the matches in order, each
  with its \<open>index\<close>.\<close>

function matchAllFrom :: "matcher \<Rightarrow> string \<Rightarrow> string \<Rightarrow> (nat \<times> string) list" where
  "matchAllFrom m pre rest =
     (case m pre rest of
        Some n \<Rightarrow>
          (length pre, take n rest)
            # (if n = 0 \<or> rest = []
               then (case rest of [] \<Rightarrow> [] | c # cs \<Rightarrow> matchAllFrom m (pre @ [c]) cs)
               else matchAllFrom m (pre @ take n rest) (drop n rest))
      | None \<Rightarrow> (case rest of [] \<Rightarrow> [] | c # cs \<Rightarrow> matchAllFrom m (pre @ [c]) cs))"
  by pat_completeness auto
termination
  by (relation "measure (\<lambda>(m, pre, rest). length rest)") auto

declare matchAllFrom.simps [simp del]

definition matchAll :: "matcher \<Rightarrow> string \<Rightarrow> (nat \<times> string) list" where
  "matchAll m s = matchAllFrom m [] s"

text \<open>\<open>s.match(re)?.[0]\<close> without the flag \<open>g\<close>: the leftmost match.\<close>

fun matchFirstFrom :: "matcher \<Rightarrow> string \<Rightarrow> string \<Rightarrow> string option" where
  "matchFirstFrom m pre [] = (case m pre [] of Some n \<Rightarrow> Some [] | None \<Rightarrow> None)"
| "matchFirstFrom m pre (c # cs) =
     (case m pre (c # cs) of
        Some n \<Rightarrow> Some (take n (c # cs))
      | None \<Rightarrow> matchFirstFrom m (pre @ [c]) cs)"

definition matchFirst :: "matcher \<Rightarrow> string \<Rightarrow> string option" where
  "matchFirst m s = matchFirstFrom m [] s"

subsection \<open>The expressions of the organizer\<close>

text \<open>
  \<open>/package\s+[a-zA-Z][a-zA-Z0-9_.]*/\<close>. \<open>\s+\<close> takes the whole run of white space: the
  next character has to be a letter, which no white space is.
\<close>

definition isPackageChar :: "char \<Rightarrow> bool" where
  "isPackageChar c = (isAsciiLetter c \<or> isDigit c \<or> c = CHR ''_'' \<or> c = CHR ''.'')"

definition packageNameRe :: matcher where
  "packageNameRe pre rest =
     (if startsWith rest ''package'' then
        (let r = drop 7 rest;
             ws = takeWhile isSpace r;
             r' = dropWhile isSpace r
         in if ws \<noteq> [] \<and> r' \<noteq> [] \<and> isAsciiLetter (hd r')
            then Some (7 + length ws + length (takeWhile isPackageChar r'))
            else None)
      else None)"

text \<open>
  \<open>/package\s+[^;]+;?/\<close> and \<open>/import\s+[^;]+;?/\<close>, and the same followed by \<open>\s*\<close>.
  White space is not a semicolon, so \<open>\s+[^;]+\<close> matches the characters up to the next
  semicolon (or the end of the text) when the first of them is white space and there
  are at least two of them; \<open>[^;]\<close> also matches a line break.
\<close>

definition declarationRe :: "string \<Rightarrow> bool \<Rightarrow> matcher" where
  "declarationRe keyword trailingSpace pre rest =
     (if startsWith rest keyword then
        (let r = drop (length keyword) rest;
             body = takeWhile (\<lambda>c. c \<noteq> CHR '';'') r;
             r' = dropWhile (\<lambda>c. c \<noteq> CHR '';'') r;
             semi = (if r' \<noteq> [] then 1 else 0);
             r'' = drop semi r';
             spaces = (if trailingSpace then length (takeWhile isSpace r'') else 0)
         in if r \<noteq> [] \<and> isSpace (hd r) \<and> 2 \<le> length body
            then Some (length keyword + length body + semi + spaces)
            else None)
      else None)"

text \<open>\<open>s.replace(/\.[^.]+$/, '')\<close>: only the last dot can start a match, and it does
  when a character follows it.\<close>

definition stripLastExtension :: "string \<Rightarrow> string" where
  "stripLastExtension s =
     (let i = lastIndexOf s CHR ''.''
      in if 0 \<le> i \<and> i + 1 < int (length s) then take (nat i) s else s)"

text \<open>
  \<open>/class\s+(\w+)[^{]*\{/\<close>: the group is the whole run of word characters, and the match
  ends with the first opening brace that follows it.
\<close>

definition classRe :: matcher where
  "classRe pre rest =
     (if startsWith rest ''class'' then
        (let r = drop 5 rest;
             ws = takeWhile isSpace r;
             r' = dropWhile isSpace r;
             w = takeWhile isWord r';
             r'' = dropWhile isWord r'
         in if ws \<noteq> [] \<and> w \<noteq> [] \<and> CHR ''{'' \<in> set r''
            then Some (5 + length ws + length w
                       + length (takeWhile (\<lambda>c. c \<noteq> CHR ''{'') r'') + 1)
            else None)
      else None)"

definition classNameOf :: "string \<Rightarrow> string" where
  "classNameOf matched = takeWhile isWord (dropWhile isSpace (drop 5 matched))"

subsection \<open>Expressions built from a string\<close>

text \<open>
  \<open>new RegExp(src, 'g')\<close>. The sources modelled here are those in which every character
  stands for itself or is a dot, which matches any character but a line terminator.
  A source with another syntax character (backslash, \<open>^ $ * + ? ( ) [ ] { } |\<close>) is left
  to \<open>hostRegExp\<close>.
\<close>

datatype rx_atom = Literal char | AnyChar

definition isSyntaxCharacter :: "char \<Rightarrow> bool" where
  "isSyntaxCharacter c =
     (c \<in> {CHR 0x5C, CHR 0x5E, CHR 0x24, CHR 0x2A, CHR 0x2B, CHR 0x3F, CHR 0x28, CHR 0x29,
            CHR 0x5B, CHR 0x5D, CHR 0x7B, CHR 0x7D, CHR 0x7C})"

fun compileFragment :: "string \<Rightarrow> rx_atom list option" where
  "compileFragment [] = Some []"
| "compileFragment (c # cs) =
     (if c = CHR ''.'' then map_option ((#) AnyChar) (compileFragment cs)
      else if isSyntaxCharacter c then None
      else map_option ((#) (Literal c)) (compileFragment cs))"

fun atomsMatch :: "rx_atom list \<Rightarrow> string \<Rightarrow> bool" where
  "atomsMatch [] s = True"
| "atomsMatch (a # as) [] = False"
| "atomsMatch (Literal c # as) (x # xs) = (x = c \<and> atomsMatch as xs)"
| "atomsMatch (AnyChar # as) (x # xs) = (\<not> isLineTerminator x \<and> atomsMatch as xs)"

definition atomsRe :: "rx_atom list \<Rightarrow> matcher" where
  "atomsRe atoms pre rest = (if atomsMatch atoms rest then Some (length atoms) else None)"

section \<open>The organizer's data\<close>

text \<open>The messages of the configuration check, each with the values that its text
  interpolates.\<close>

datatype config_message =
    NotAnObject
  | UnknownSections "string list"
  | EmptyRenameName string string
  | UnsafeFolderPath string
  | NoDestination string

text \<open>What the program throws.\<close>

datatype error =
    EmptyInput
  | NoHeadersFound
  | InvalidConfig "config_message list"
  | ConfigNotLoaded
  | RegExpSyntaxError string
  | TypeError string

text \<open>
  What the program reads from its surroundings: the clock, the random number generator
  and the regular-expression engine of the host. The \<open>n\<close>-th read of the clock or of
  the generator returns the \<open>n\<close>-th value; the organizer counts its reads in \<open>tick\<close>.
  \<open>hostRegExp src repl s\<close> is \<open>s.replace(new RegExp(src, 'g'), repl)\<close> for the pattern
  sources that the fragment modelled above does not cover (\<open>Inl\<close>: the constructor
  threw).
\<close>

record env =
  isoTime :: "nat \<Rightarrow> string"
  nowMs :: "nat \<Rightarrow> string"
  random36 :: "nat \<Rightarrow> string"
  hostRegExp :: "string \<Rightarrow> string \<Rightarrow> string \<Rightarrow> error + string"

definition regexpReplaceGlobal :: "env \<Rightarrow> string \<Rightarrow> string \<Rightarrow> string \<Rightarrow> error + string" where
  "regexpReplaceGlobal e src template s =
     (case compileFragment src of
        Some atoms \<Rightarrow> Inr (replaceAll (atomsRe atoms) template s)
      | None \<Rightarrow> hostRegExp e src template s)"

subsection \<open>Configuration\<close>

text \<open>
  A configuration section is a JSON object; it is modelled by the list that
  \<open>Object.entries\<close> returns for it. An absent property is \<open>None\<close>.
\<close>

record content_update =
  replacements :: "(string \<times> string) list option"
  addImports :: "string list option"
  updatePackage :: "string option"

record modifications =
  packageName :: "string option"
  className :: "string option"
  mod_imports :: "string list option"

record location =
  loc_folder :: "string option"
  loc_name :: "string option"
  loc_modifications :: "modifications option"

record split_config =
  strategy :: string
  linesPerFile :: "nat option"

text \<open>A value of the \<open>mergeFiles\<close> object: an array of file names, or a string (as
  the value of the key \<open>mergeStrategy\<close> is).\<close>

datatype merge_value = NameArray "string list" | StringValue string

record config_data =
  fileRenames :: "(string \<times> string) list option"
  extensionChanges :: "(string \<times> string) list option"
  folderMappings :: "(string \<times> string) list option"
  contentUpdates :: "(string \<times> content_update) list option"
  copyToMultipleLocations :: "(string \<times> location list) list option"
  mergeFiles :: "(string \<times> merge_value) list option"
  splitFiles :: "(string \<times> split_config) list option"
  otherKeys :: "string list"

record validated_config =
  isValid :: bool
  errors :: "config_message list"
  warnings :: "config_message list"
  data :: "config_data option"

subsection \<open>File records and operations\<close>

datatype status =
    Pending | Renamed | Moved | ExtensionChanged | Copied | Merged | MergedSource
  | SplitResult | SplitSource | ContentUpdated

text \<open>The operation objects; the last argument of each is its \<open>timestamp\<close>.\<close>

datatype operation =
    OpRename string string string
  | OpChangeExtension string string string string string
  | OpMove string string string string
  | OpUpdateContent string content_update nat nat string
  | OpCopy string string string string
  | OpMerge merge_value string "merge_value option" string
  | OpSplit string "string list" string string
  | OpMergedInto string string
  | OpSplitInto "string list" string
  | OpSplitFromClass string string string
  | OpSplitFromPart string nat string

record metadata =
  hasPackageDeclaration :: bool
  hasImports :: bool
  isExecutable :: bool
  complexity :: string

text \<open>
  A file object. \<open>fileId\<close> is the property \<open>id\<close>, \<open>fileSize\<close> is \<open>size\<close> and
  \<open>lineCount\<close> is \<open>lines\<close>. A property that some file objects do not have is an
  option.
\<close>

record file_record =
  fileId :: string
  fileName :: string
  originalPath :: "string option"
  currentPath :: string
  extension :: string
  content :: string
  fileSize :: nat
  lineCount :: "nat option"
  operations :: "operation list"
  status :: status
  folderPath :: "string option"
  isCopy :: bool
  originalFileId :: "string option"
  isMerged :: bool
  sourceFileIds :: "string list"
  isSplit :: bool
  sourceFileId :: "string option"
  created :: "string option"
  originalTitle :: "string option"
  language :: "string option"
  fileMetadata :: "metadata option"

record log_entry =
  entryOp :: operation
  dryRun :: bool
  entryId :: string

text \<open>The messages of the check that follows a run.\<close>

datatype result_message =
    DuplicateFiles "string list"
  | InvalidPaths nat
  | EmptyFiles nat

record validation =
  valErrors :: "result_message list"
  valWarnings :: "result_message list"
  totalFiles :: nat
  renamedFiles :: nat
  movedFiles :: nat
  copiedFiles :: nat
  mergedFiles :: nat
  splitFilesCount :: nat

text \<open>Of the report, the summary and the validation are kept; its other parts are
  views of the log and of the files.\<close>

record report =
  reportTotalFiles :: nat
  reportTotalOperations :: nat
  reportTimestamp :: string
  reportValidation :: "validation option"

record organizer =
  files :: "file_record list"
  config :: "validated_config option"
  organizationLog :: "log_entry list"
  validationResults :: "validation option"
  organizationReport :: "report option"
  tick :: nat

text \<open>The result of a method that may throw: the organizer as the method left it,
  and the exception if it threw.\<close>

datatype outcome = Done organizer | Threw error organizer

fun final :: "outcome \<Rightarrow> organizer" where
  "final (Done st) = st"
| "final (Threw e st) = st"

fun thrown :: "outcome \<Rightarrow> error option" where
  "thrown (Done st) = None"
| "thrown (Threw e st) = Some e"

text \<open>\<open>xs.forEach(f)\<close> with a callback that may throw.\<close>

fun forEach :: "('a \<Rightarrow> organizer \<Rightarrow> outcome) \<Rightarrow> 'a list \<Rightarrow> organizer \<Rightarrow> outcome" where
  "forEach f [] st = Done st"
| "forEach f (x # xs) st =
     (case f x st of Done st' \<Rightarrow> forEach f xs st' | Threw e st' \<Rightarrow> Threw e st')"


section \<open>The organizer's helpers\<close>

fun findIndex :: "('a \<Rightarrow> bool) \<Rightarrow> 'a list \<Rightarrow> nat option" where
  "findIndex P [] = None"
| "findIndex P (x # xs) = (if P x then Some 0 else map_option Suc (findIndex P xs))"

definition matchesName :: "string \<Rightarrow> file_record \<Rightarrow> bool" where
  "matchesName name file =
     (fileName file = name \<or> originalPath file = Some name \<or> currentPath file = name)"

text \<open>\<open>findFileByName\<close> returns a reference into \<open>this.files\<close>: here, the position.\<close>

definition findFileByName :: "file_record list \<Rightarrow> string \<Rightarrow> nat option" where
  "findFileByName fs name = findIndex (matchesName name) fs"

text \<open>A string property that is absent or empty is falsy.\<close>

fun truthy :: "string option \<Rightarrow> bool" where
  "truthy None = False"
| "truthy (Some s) = (s \<noteq> [])"

definition joinPath :: "string option \<Rightarrow> string \<Rightarrow> string" where
  "joinPath folder fileName' =
     (case folder of
        None \<Rightarrow> fileName'
      | Some p \<Rightarrow>
          if p = [] then fileName'
          else if endsWith p ''/'' then p @ fileName'
          else p @ ''/'' @ fileName')"

definition getFileExtension :: "string \<Rightarrow> string" where
  "getFileExtension fileName' =
     (if includesStr fileName' ''.'' then toLowerCase (last (split CHR ''.'' fileName'))
      else ''txt'')"

definition generateId :: "env \<Rightarrow> nat \<Rightarrow> string" where
  "generateId e n = ''file_'' @ nowMs e n @ ''_'' @ random36 e n"

definition logOperation :: "env \<Rightarrow> operation \<Rightarrow> bool \<Rightarrow> organizer \<Rightarrow> organizer" where
  "logOperation e op dry st =
     st\<lparr>organizationLog :=
          organizationLog st @ [\<lparr>entryOp = op, dryRun = dry, entryId = generateId e (tick st)\<rparr>],
        tick := Suc (tick st)\<rparr>"

section \<open>Loading files and configuration\<close>

fun loadFilesFrom :: "env \<Rightarrow> nat \<Rightarrow> file_record list \<Rightarrow> file_record list \<times> nat" where
  "loadFilesFrom e n [] = ([], n)"
| "loadFilesFrom e n (file # rest) =
     (let (newId, n') = (if fileId file \<noteq> [] then (fileId file, n) else (generateId e n, Suc n));
          (rest', n'') = loadFilesFrom e n' rest
      in (file\<lparr>fileId := newId,
                originalPath := Some (fileName file),
                currentPath := fileName file,
                operations := [],
                status := Pending\<rparr> # rest', n''))"

definition loadFiles :: "env \<Rightarrow> file_record list \<Rightarrow> organizer \<Rightarrow> organizer" where
  "loadFiles e fs st =
     (let (fs', n) = loadFilesFrom e (tick st) fs in st\<lparr>files := fs', tick := n\<rparr>)"

definition supportedSections :: "string list" where
  "supportedSections =
     [''fileRenames'', ''extensionChanges'', ''folderMappings'', ''contentUpdates'',
      ''copyToMultipleLocations'', ''mergeFiles'', ''splitFiles'']"

text \<open>
  \<open>validateAndNormalizeConfig\<close>. \<open>None\<close> is a value that is not an object. The keys of
  the object are the seven sections that are present and \<open>otherKeys\<close>. The types of the
  sections exclude the values for which the \<open>typeof\<close> and \<open>Array.isArray\<close> tests fail.
\<close>

definition validateAndNormalizeConfig :: "config_data option \<Rightarrow> validated_config" where
  "validateAndNormalizeConfig cfg =
     (case cfg of
        None \<Rightarrow> \<lparr>isValid = False, errors = [NotAnObject], warnings = [], data = None\<rparr>
      | Some c \<Rightarrow>
          let unknownSections =
                filter (\<lambda>section. section \<notin> set supportedSections
                          \<and> section \<notin> set [''projectName'', ''description'', ''version''])
                  (otherKeys c);
              warnings' = (if unknownSections \<noteq> [] then [UnknownSections unknownSections] else []);
              errors1 =
                (case fileRenames c of
                   None \<Rightarrow> []
                 | Some m \<Rightarrow>
                     concat (map (\<lambda>(oldName, newName).
                       if oldName = [] \<or> newName = [] then [EmptyRenameName oldName newName]
                       else []) m));
              errors2 =
                (case folderMappings c of
                   None \<Rightarrow> []
                 | Some m \<Rightarrow>
                     concat (map (\<lambda>(fileName', folderPath').
                       if includesStr folderPath' ''..'' \<or> startsWith folderPath' ''/''
                       then [UnsafeFolderPath folderPath'] else []) m));
              errors3 =
                (case copyToMultipleLocations c of
                   None \<Rightarrow> []
                 | Some m \<Rightarrow>
                     concat (map (\<lambda>(fileName', locations).
                       if locations = [] then [NoDestination fileName'] else []) m));
              errors' = errors1 @ errors2 @ errors3
          in \<lparr>isValid = (errors' = []), errors = errors', warnings = warnings', data = Some c\<rparr>)"

text \<open>\<open>loadConfig\<close> stores the result of the check, and then looks at it.\<close>

definition loadConfig :: "config_data option \<Rightarrow> organizer \<Rightarrow> outcome" where
  "loadConfig cfg st =
     (let v = validateAndNormalizeConfig cfg;
          st' = st\<lparr>config := Some v\<rparr>
      in if \<not> isValid v then Threw (InvalidConfig (errors v)) st' else Done st')"

section \<open>Renames, extension changes and folder mappings\<close>

definition renameEntry :: "env \<Rightarrow> bool \<Rightarrow> string \<times> string \<Rightarrow> organizer \<Rightarrow> outcome" where
  "renameEntry e dry kv st =
     (case findFileByName (files st) (fst kv) of
        None \<Rightarrow> Done st
      | Some i \<Rightarrow>
          let file = files st ! i;
              newName = snd kv;
              operation = OpRename (currentPath file) newName (isoTime e (tick st));
              st1 = st\<lparr>tick := Suc (tick st)\<rparr>;
              st2 = (if dry then st1
                     else st1\<lparr>files := (files st1)[i := file\<lparr>fileName := newName,
                            currentPath := newName,
                            operations := operations file @ [operation],
                            status := Renamed\<rparr>]\<rparr>)
          in Done (logOperation e operation dry st2))"

definition applyFileRenames :: "env \<Rightarrow> (string \<times> string) list \<Rightarrow> bool \<Rightarrow> organizer \<Rightarrow> outcome" where
  "applyFileRenames e cfg dry st = forEach (renameEntry e dry) cfg st"

definition extensionEntry :: "env \<Rightarrow> bool \<Rightarrow> string \<times> string \<Rightarrow> organizer \<Rightarrow> outcome" where
  "extensionEntry e dry kv st =
     (case findFileByName (files st) (fst kv) of
        None \<Rightarrow> Done st
      | Some i \<Rightarrow>
          let file = files st ! i;
              newExtension = snd kv;
              baseName = substring (fst kv) 0 (lastIndexOf (fst kv) CHR ''.'');
              newFileName = baseName @ ''.'' @ newExtension;
              operation = OpChangeExtension (currentPath file) newFileName (extension file)
                            newExtension (isoTime e (tick st));
              st1 = st\<lparr>tick := Suc (tick st)\<rparr>;
              st2 = (if dry then st1
                     else st1\<lparr>files := (files st1)[i := file\<lparr>fileName := newFileName,
                            currentPath := newFileName,
                            extension := newExtension,
                            operations := operations file @ [operation],
                            status := ExtensionChanged\<rparr>]\<rparr>)
          in Done (logOperation e operation dry st2))"

definition applyExtensionChanges :: "env \<Rightarrow> (string \<times> string) list \<Rightarrow> bool \<Rightarrow> organizer \<Rightarrow> outcome" where
  "applyExtensionChanges e cfg dry st = forEach (extensionEntry e dry) cfg st"

definition folderEntry :: "env \<Rightarrow> bool \<Rightarrow> string \<times> string \<Rightarrow> organizer \<Rightarrow> outcome" where
  "folderEntry e dry kv st =
     (case findFileByName (files st) (fst kv) of
        None \<Rightarrow> Done st
      | Some i \<Rightarrow>
          let file = files st ! i;
              folderPath' = snd kv;
              newPath = joinPath (Some folderPath') (fileName file);
              operation = OpMove (currentPath file) newPath folderPath' (isoTime e (tick st));
              st1 = st\<lparr>tick := Suc (tick st)\<rparr>;
              st2 = (if dry then st1
                     else st1\<lparr>files := (files st1)[i := file\<lparr>currentPath := newPath,
                            folderPath := Some folderPath',
                            operations := operations file @ [operation],
                            status := Moved\<rparr>]\<rparr>)
          in Done (logOperation e operation dry st2))"

definition applyFolderMappings :: "env \<Rightarrow> (string \<times> string) list \<Rightarrow> bool \<Rightarrow> organizer \<Rightarrow> outcome" where
  "applyFolderMappings e cfg dry st = forEach (folderEntry e dry) cfg st"


section \<open>Content updates\<close>

fun applyReplacements :: "env \<Rightarrow> (string \<times> string) list \<Rightarrow> string \<Rightarrow> error + string" where
  "applyReplacements e [] newContent = Inr newContent"
| "applyReplacements e (replacement # rest) newContent =
     (case regexpReplaceGlobal e (fst replacement) (snd replacement) newContent of
        Inl err \<Rightarrow> Inl err
      | Inr newContent' \<Rightarrow> applyReplacements e rest newContent')"

definition importLines :: "string list \<Rightarrow> string" where
  "importLines imps = join ''\<newline>'' (map (\<lambda>imp. ''import '' @ imp @ '';'') imps)"

definition replacePackage :: "string \<Rightarrow> string \<Rightarrow> string" where
  "replacePackage s name = replaceFirst packageNameRe (''package '' @ name) s"

definition updatedContent :: "env \<Rightarrow> content_update \<Rightarrow> string \<Rightarrow> error + string" where
  "updatedContent e updates content0 =
     (case (case replacements updates of
              None \<Rightarrow> Inr content0
            | Some rs \<Rightarrow> applyReplacements e rs content0) of
        Inl err \<Rightarrow> Inl err
      | Inr c1 \<Rightarrow>
          let c2 = (case addImports updates of
                      None \<Rightarrow> c1
                    | Some imps \<Rightarrow> importLines imps @ ''\<newline>\<newline>'' @ c1);
              c3 = (if truthy (updatePackage updates)
                    then replacePackage c2 (the (updatePackage updates)) else c2)
          in Inr c3)"

definition contentEntry :: "env \<Rightarrow> bool \<Rightarrow> string \<times> content_update \<Rightarrow> organizer \<Rightarrow> outcome" where
  "contentEntry e dry kv st =
     (case findFileByName (files st) (fst kv) of
        None \<Rightarrow> Done st
      | Some i \<Rightarrow>
          let file = files st ! i;
              updates = snd kv
          in (case updatedContent e updates (content file) of
                Inl err \<Rightarrow> Threw err st
              | Inr newContent \<Rightarrow>
                  let operation = OpUpdateContent (fst kv) updates (length (content file))
                                    (length newContent) (isoTime e (tick st));
                      st1 = st\<lparr>tick := Suc (tick st)\<rparr>;
                      st2 = (if dry then st1
                             else st1\<lparr>files := (files st1)[i := file\<lparr>content := newContent,
                                    fileSize := blobSize newContent,
                                    operations := operations file @ [operation],
                                    status := ContentUpdated\<rparr>]\<rparr>)
                  in Done (logOperation e operation dry st2)))"

definition applyContentUpdates ::
    "env \<Rightarrow> (string \<times> content_update) list \<Rightarrow> bool \<Rightarrow> organizer \<Rightarrow> outcome" where
  "applyContentUpdates e cfg dry st = forEach (contentEntry e dry) cfg st"

section \<open>Copies\<close>

text \<open>The decimal digits of a number, as string interpolation prints it.\<close>

fun showNatFuel :: "nat \<Rightarrow> nat \<Rightarrow> string" where
  "showNatFuel 0 n = [char_of (48 + n mod 10)]"
| "showNatFuel (Suc k) n =
     (if n < 10 then [char_of (48 + n)] else showNatFuel k (n div 10) @ [char_of (48 + n mod 10)])"

definition showNat :: "nat \<Rightarrow> string" where
  "showNat n = showNatFuel n n"

definition applyModificationsToCopy :: "env \<Rightarrow> file_record \<Rightarrow> modifications \<Rightarrow> error + file_record" where
  "applyModificationsToCopy e fileCopy mods =
     (let c1 = (if truthy (packageName mods)
                then replacePackage (content fileCopy) (the (packageName mods))
                else content fileCopy)
      in (case (if truthy (className mods)
                then regexpReplaceGlobal e
                       ([CHR ''c'', CHR ''l'', CHR ''a'', CHR ''s'', CHR ''s'', CHR 0x5C, CHR ''s'', CHR ''+'']
                          @ stripLastExtension (fileName fileCopy))
                       (''class '' @ the (className mods)) c1
                else Inr c1) of
            Inl err \<Rightarrow> Inl err
          | Inr c2 \<Rightarrow>
              let c3 = (case mod_imports mods of
                          None \<Rightarrow> c2
                        | Some imps \<Rightarrow> importLines imps @ ''\<newline>\<newline>'' @ c2)
              in Inr (fileCopy\<lparr>content := c3\<rparr>)))"

text \<open>One destination of one rule; \<open>i\<close> is the position of the original file and
  \<open>index\<close> that of the destination.\<close>

definition copyLocation ::
    "env \<Rightarrow> bool \<Rightarrow> string \<Rightarrow> nat \<Rightarrow> nat \<times> location \<Rightarrow> organizer \<Rightarrow> outcome" where
  "copyLocation e dry fileName' i il st =
     (let originalFile = files st ! i;
          index = fst il;
          loc = snd il;
          copyName = (if truthy (loc_name loc) then the (loc_name loc) else fileName');
          copyId = fileId originalFile @ ''_copy_'' @ showNat index;
          copyPath = joinPath (loc_folder loc) copyName;
          operation = OpCopy fileName' copyPath copyId (isoTime e (tick st));
          st1 = st\<lparr>tick := Suc (tick st)\<rparr>
      in if dry then Done (logOperation e operation dry st1)
         else
           (let fileCopy = originalFile\<lparr>fileId := copyId,
                  fileName := copyName,
                  currentPath := copyPath,
                  folderPath := loc_folder loc,
                  operations := [operation],
                  status := Copied,
                  isCopy := True,
                  originalFileId := Some (fileId originalFile)\<rparr>
            in (case (case loc_modifications loc of
                        None \<Rightarrow> Inr fileCopy
                      | Some mods \<Rightarrow> applyModificationsToCopy e fileCopy mods) of
                  Inl err \<Rightarrow> Threw err st1
                | Inr fileCopy' \<Rightarrow>
                    Done (logOperation e operation dry (st1\<lparr>files := files st1 @ [fileCopy']\<rparr>)))))"

definition copyEntry :: "env \<Rightarrow> bool \<Rightarrow> string \<times> location list \<Rightarrow> organizer \<Rightarrow> outcome" where
  "copyEntry e dry kv st =
     (case findFileByName (files st) (fst kv) of
        None \<Rightarrow> Done st
      | Some i \<Rightarrow> forEach (copyLocation e dry (fst kv) i) (enumerate 0 (snd kv)) st)"

definition applyCopyToMultipleLocations ::
    "env \<Rightarrow> (string \<times> location list) list \<Rightarrow> bool \<Rightarrow> organizer \<Rightarrow> outcome" where
  "applyCopyToMultipleLocations e cfg dry st = forEach (copyEntry e dry) cfg st"


section \<open>Merging\<close>

definition nonEmpty :: "string \<Rightarrow> bool" where
  "nonEmpty s = (s \<noteq> [])"

definition importsOf :: "string \<Rightarrow> string list" where
  "importsOf s = map snd (matchAll (declarationRe ''import'' False) s)"

definition packageDeclarationOf :: "string \<Rightarrow> string" where
  "packageDeclarationOf s =
     (case matchFirst (declarationRe ''package'' False) s of Some m \<Rightarrow> m | None \<Rightarrow> [])"

definition cleanContent :: "string \<Rightarrow> string" where
  "cleanContent s =
     trim (replaceAll (declarationRe ''import'' True) []
             (replaceFirst (declarationRe ''package'' True) [] s))"

text \<open>\<open>mergeFileContents\<close>; \<open>strategy\<close> is the value the \<open>switch\<close> compares. With no
  source file, \<open>sourceFiles[0].content\<close> throws.\<close>

definition mergeFileContents :: "file_record list \<Rightarrow> merge_value \<Rightarrow> error + string" where
  "mergeFileContents sourceFiles strategy' =
     (if strategy' = StringValue ''concatenate'' then
        Inr (join ''\<newline>\<newline>'' (map content sourceFiles))
      else if strategy' = StringValue ''package_merge'' then
        (case sourceFiles of
           [] \<Rightarrow> Inl (TypeError ''sourceFiles[0] is undefined'')
         | first # others \<Rightarrow>
             let packageDeclaration = packageDeclarationOf (content first);
                 allImports = uniqueInOrder (concat (map (\<lambda>file. importsOf (content file)) sourceFiles));
                 allContent = map (\<lambda>file. cleanContent (content file)) sourceFiles
             in Inr (join ''\<newline>''
                      (filter nonEmpty
                         [packageDeclaration, [], join ''\<newline>'' allImports, [],
                          join ''\<newline>\<newline>'' allContent])))
      else if strategy' = StringValue ''section_merge'' then
        Inr (join ''\<newline>\<newline>''
               (map (\<lambda>f. ''// === '' @ fileName f @ '' ===\<newline>'' @ content f
                          @ ''\<newline>// === End '' @ fileName f @ '' ==='') sourceFiles))
      else Inr (join ''\<newline>'' (map content sourceFiles)))"

text \<open>\<open>config.mergeStrategy || 'concatenate'\<close>, read from the \<open>mergeFiles\<close> object itself.\<close>

definition mergeStrategyOf :: "(string \<times> merge_value) list \<Rightarrow> merge_value" where
  "mergeStrategyOf cfg =
     (case map_of cfg ''mergeStrategy'' of
        None \<Rightarrow> StringValue ''concatenate''
      | Some (StringValue s) \<Rightarrow> if s = [] then StringValue ''concatenate'' else StringValue s
      | Some (NameArray names) \<Rightarrow> NameArray names)"

definition markMergedSource :: "env \<Rightarrow> string \<Rightarrow> nat \<Rightarrow> organizer \<Rightarrow> organizer" where
  "markMergedSource e mergedFileName i st =
     (let source = files st ! i
      in st\<lparr>files := (files st)[i := source\<lparr>status := MergedSource,
               operations := operations source @ [OpMergedInto mergedFileName (isoTime e (tick st))]\<rparr>],
            tick := Suc (tick st)\<rparr>)"

text \<open>The callback runs on every entry of the object, the entry \<open>mergeStrategy\<close>
  included; \<open>sourceFiles.map\<close> is not a function when the value is a string.\<close>

definition mergeEntry ::
    "env \<Rightarrow> bool \<Rightarrow> (string \<times> merge_value) list \<Rightarrow> string \<times> merge_value \<Rightarrow> organizer \<Rightarrow> outcome" where
  "mergeEntry e dry cfg kv st =
     (case snd kv of
        StringValue s \<Rightarrow> Threw (TypeError ''sourceFiles.map is not a function'') st
      | NameArray sourceFiles \<Rightarrow>
          let mergedFileName = fst kv;
              sources = List.map_filter (findFileByName (files st)) sourceFiles
          in if sources = [] then Done st
             else
               (case mergeFileContents (map (\<lambda>i. files st ! i) sources) (mergeStrategyOf cfg) of
                  Inl err \<Rightarrow> Threw err st
                | Inr mergedContent \<Rightarrow>
                    let operation = OpMerge (NameArray sourceFiles) mergedFileName
                                      (map_of cfg ''mergeStrategy'') (isoTime e (tick st));
                        st1 = st\<lparr>tick := Suc (tick st)\<rparr>
                    in if dry then Done (logOperation e operation dry st1)
                       else
                         (let mergedFile =
                                \<lparr>fileId = generateId e (tick st1),
                                 fileName = mergedFileName,
                                 originalPath = None,
                                 currentPath = mergedFileName,
                                 extension = getFileExtension mergedFileName,
                                 content = mergedContent,
                                 fileSize = blobSize mergedContent,
                                 lineCount = Some (length (split CHR 0x0A mergedContent)),
                                 operations = [operation],
                                 status = Merged,
                                 folderPath = None,
                                 isCopy = False,
                                 originalFileId = None,
                                 isMerged = True,
                                 sourceFileIds = map (\<lambda>i. fileId (files st ! i)) sources,
                                 isSplit = False,
                                 sourceFileId = None,
                                 created = Some (isoTime e (Suc (tick st1))),
                                 originalTitle = None,
                                 language = None,
                                 fileMetadata = None\<rparr>;
                              st2 = st1\<lparr>files := files st1 @ [mergedFile], tick := tick st1 + 2\<rparr>;
                              st3 = fold (markMergedSource e mergedFileName) sources st2
                          in Done (logOperation e operation dry st3))))"

definition applyMergeFiles ::
    "env \<Rightarrow> (string \<times> merge_value) list \<Rightarrow> bool \<Rightarrow> organizer \<Rightarrow> outcome" where
  "applyMergeFiles e cfg dry st = forEach (mergeEntry e dry cfg) cfg st"

section \<open>Splitting\<close>

text \<open>The loop that looks for the closing brace of a class: \<open>i\<close> is the position of the
  first character of the text that is left.\<close>

fun findClassEnd :: "int \<Rightarrow> nat \<Rightarrow> string \<Rightarrow> nat option" where
  "findClassEnd braceCount i [] = None"
| "findClassEnd braceCount i (c # cs) =
     (let braceCount' = (if c = CHR ''{'' then braceCount + 1
                         else if c = CHR ''}'' then braceCount - 1 else braceCount)
      in if braceCount' = 0 \<and> c = CHR ''}'' then Some (i + 1)
         else findClassEnd braceCount' (i + 1) cs)"

definition emptyFile :: file_record where
  "emptyFile =
     \<lparr>fileId = [], fileName = [], originalPath = None, currentPath = [], extension = [],
      content = [], fileSize = 0, lineCount = None, operations = [], status = Pending,
      folderPath = None, isCopy = False, originalFileId = None, isMerged = False,
      sourceFileIds = [], isSplit = False, sourceFileId = None, created = None,
      originalTitle = None, language = None, fileMetadata = None\<rparr>"

definition splitResult ::
    "env \<Rightarrow> file_record \<Rightarrow> string \<Rightarrow> string \<Rightarrow> nat \<Rightarrow> (string \<Rightarrow> operation) \<Rightarrow> nat \<Rightarrow> file_record" where
  "splitResult e sourceFile name body nLines splitFrom n =
     emptyFile\<lparr>fileId := generateId e n,
       fileName := name,
       currentPath := name,
       extension := extension sourceFile,
       content := body,
       fileSize := blobSize body,
       lineCount := Some nLines,
       operations := [splitFrom (isoTime e (Suc n))],
       status := SplitResult,
       isSplit := True,
       sourceFileId := Some (fileId sourceFile),
       created := Some (isoTime e (n + 2))\<rparr>"

definition splitClass :: "env \<Rightarrow> file_record \<Rightarrow> nat \<times> string \<Rightarrow> nat \<Rightarrow> file_record" where
  "splitClass e sourceFile match n =
     (let className' = classNameOf (snd match);
          classStart = fst match;
          classEnd = (case findClassEnd 0 classStart (drop classStart (content sourceFile)) of
                        Some k \<Rightarrow> k | None \<Rightarrow> classStart);
          classContent = substring (content sourceFile) (int classStart) (int classEnd);
          fullContent = join ''\<newline>''
                          (filter nonEmpty
                             [packageDeclarationOf (content sourceFile), [],
                              join ''\<newline>'' (importsOf (content sourceFile)), [], classContent])
      in splitResult e sourceFile (className' @ ''.'' @ extension sourceFile) fullContent
           (length (split CHR 0x0A fullContent))
           (OpSplitFromClass (fileName sourceFile) className') n)"

definition splitPart :: "env \<Rightarrow> file_record \<Rightarrow> nat \<Rightarrow> string list \<Rightarrow> nat \<Rightarrow> nat \<Rightarrow> file_record" where
  "splitPart e sourceFile linesPerFile' lines' i n =
     (let chunkLines = take linesPerFile' (drop i lines');
          chunkContent = join ''\<newline>'' chunkLines;
          partNumber = i div linesPerFile' + 1
      in splitResult e sourceFile
           (stripLastExtension (fileName sourceFile) @ ''_part'' @ showNat partNumber @ ''.''
              @ extension sourceFile)
           chunkContent (length chunkLines)
           (OpSplitFromPart (fileName sourceFile) partNumber) n)"

text \<open>Each new file object reads the environment three times. \<open>linesPerFile\<close> is a
  natural number here, and \<open>0\<close> is falsy.\<close>

definition splitFileContent ::
    "env \<Rightarrow> file_record \<Rightarrow> split_config \<Rightarrow> nat \<Rightarrow> file_record list \<times> nat" where
  "splitFileContent e sourceFile splitConfig n =
     (if strategy splitConfig = ''by_class'' then
        (let classMatches = matchAll classRe (content sourceFile)
         in (map (\<lambda>(j, match). splitClass e sourceFile match (n + 3 * j)) (enumerate 0 classMatches),
             n + 3 * length classMatches))
      else if strategy splitConfig = ''by_lines'' then
        (let linesPerFile' = (case linesPerFile splitConfig of
                                None \<Rightarrow> 100 | Some k \<Rightarrow> if k = 0 then 100 else k);
             lines' = split CHR 0x0A (content sourceFile);
             count = (length lines' + linesPerFile' - 1) div linesPerFile'
         in (map (\<lambda>j. splitPart e sourceFile linesPerFile' lines' (j * linesPerFile') (n + 3 * j))
               [0..<count],
             n + 3 * count))
      else ([], n))"

definition splitEntry :: "env \<Rightarrow> bool \<Rightarrow> string \<times> split_config \<Rightarrow> organizer \<Rightarrow> outcome" where
  "splitEntry e dry kv st =
     (case findFileByName (files st) (fst kv) of
        None \<Rightarrow> Done st
      | Some i \<Rightarrow>
          let sourceFile = files st ! i;
              (splitFiles', n) = splitFileContent e sourceFile (snd kv) (tick st);
              names = map fileName splitFiles';
              operation = OpSplit (fst kv) names (strategy (snd kv)) (isoTime e n);
              st1 = st\<lparr>tick := Suc n\<rparr>;
              st2 = (if dry then st1
                     else st1\<lparr>files := (files st1 @ splitFiles')[i := sourceFile\<lparr>status := SplitSource,
                              operations := operations sourceFile
                                 @ [OpSplitInto names (isoTime e (tick st1))]\<rparr>],
                            tick := Suc (tick st1)\<rparr>)
          in Done (logOperation e operation dry st2))"

definition applySplitFiles ::
    "env \<Rightarrow> (string \<times> split_config) list \<Rightarrow> bool \<Rightarrow> organizer \<Rightarrow> outcome" where
  "applySplitFiles e cfg dry st = forEach (splitEntry e dry) cfg st"


section \<open>The check after a run, and the report\<close>

definition countWhere :: "('a \<Rightarrow> bool) \<Rightarrow> 'a list \<Rightarrow> nat" where
  "countWhere P xs = length (filter P xs)"

text \<open>\<open>names.filter((name, index) => names.indexOf(name) !== index)\<close>.\<close>

definition duplicatesOf :: "string list \<Rightarrow> string list" where
  "duplicatesOf names =
     map snd (filter (\<lambda>(index, name). findIndex (\<lambda>x. x = name) names \<noteq> Some index)
                (enumerate 0 names))"

definition validateOrganizationResults :: "organizer \<Rightarrow> organizer" where
  "validateOrganizationResults st =
     (let fileNames = map currentPath (files st);
          duplicates = duplicatesOf fileNames;
          invalidPaths = filter (\<lambda>f. currentPath f = [] \<or> trim (currentPath f) = []) (files st);
          emptySizeFiles = filter (\<lambda>f. fileSize f = 0) (files st);
          validation' =
            \<lparr>valErrors =
               (if duplicates \<noteq> [] then [DuplicateFiles (uniqueInOrder duplicates)] else [])
               @ (if invalidPaths \<noteq> [] then [InvalidPaths (length invalidPaths)] else []),
             valWarnings =
               (if emptySizeFiles \<noteq> [] then [EmptyFiles (length emptySizeFiles)] else []),
             totalFiles = length (files st),
             renamedFiles = countWhere (\<lambda>f. status f = Renamed) (files st),
             movedFiles = countWhere (\<lambda>f. status f = Moved) (files st),
             copiedFiles = countWhere isCopy (files st),
             mergedFiles = countWhere isMerged (files st),
             splitFilesCount = countWhere isSplit (files st)\<rparr>
      in st\<lparr>validationResults := Some validation'\<rparr>)"

definition generateOrganizationReport :: "env \<Rightarrow> organizer \<Rightarrow> organizer" where
  "generateOrganizationReport e st =
     st\<lparr>organizationReport :=
          Some \<lparr>reportTotalFiles = length (files st),
                reportTotalOperations = length (organizationLog st),
                reportTimestamp = isoTime e (tick st),
                reportValidation = validationResults st\<rparr>,
        tick := Suc (tick st)\<rparr>"

section \<open>organizeFiles\<close>

record options =
  optDryRun :: bool
  validateResults :: bool
  generateReport :: bool

text \<open>The defaults of the destructured \<open>options\<close>.\<close>

definition defaultOptions :: options where
  "defaultOptions = \<lparr>optDryRun = False, validateResults = True, generateReport = True\<rparr>"

fun andThen :: "outcome \<Rightarrow> (organizer \<Rightarrow> outcome) \<Rightarrow> outcome" where
  "andThen (Done st) f = f st"
| "andThen (Threw err st) f = Threw err st"

text \<open>\<open>if (this.config.data[operation]) await this.applyOperation(...)\<close>: a section that
  is present is an object, which is truthy.\<close>

fun applyOperation :: "'a option \<Rightarrow> ('a \<Rightarrow> bool \<Rightarrow> organizer \<Rightarrow> outcome) \<Rightarrow> bool \<Rightarrow> organizer \<Rightarrow> outcome" where
  "applyOperation None apply dry st = Done st"
| "applyOperation (Some operationConfig) apply dry st = apply operationConfig dry st"

definition applyAll :: "env \<Rightarrow> config_data \<Rightarrow> bool \<Rightarrow> organizer \<Rightarrow> outcome" where
  "applyAll e c dry st =
     andThen (andThen (andThen (andThen (andThen (andThen
       (applyOperation (fileRenames c) (applyFileRenames e) dry st)
       (applyOperation (extensionChanges c) (applyExtensionChanges e) dry))
       (applyOperation (folderMappings c) (applyFolderMappings e) dry))
       (applyOperation (contentUpdates c) (applyContentUpdates e) dry))
       (applyOperation (copyToMultipleLocations c) (applyCopyToMultipleLocations e) dry))
       (applyOperation (mergeFiles c) (applyMergeFiles e) dry))
       (applyOperation (splitFiles c) (applySplitFiles e) dry)"

definition organizeFiles :: "env \<Rightarrow> options \<Rightarrow> organizer \<Rightarrow> outcome" where
  "organizeFiles e opts st =
     (case config st of
        None \<Rightarrow> Threw ConfigNotLoaded st
      | Some v \<Rightarrow>
          if \<not> isValid v then Threw ConfigNotLoaded st
          else
            (case data v of
               None \<Rightarrow> Threw (TypeError ''this.config.data is undefined'') st
             | Some c \<Rightarrow>
                 andThen (applyAll e c (optDryRun opts) (st\<lparr>organizationLog := []\<rparr>))
                   (\<lambda>st1.
                      let st2 = (if validateResults opts then validateOrganizationResults st1 else st1);
                          st3 = (if generateReport opts then generateOrganizationReport e st2 else st2)
                      in Done st3)))"

text \<open>A new organizer, as the constructor leaves it.\<close>

definition newOrganizer :: organizer where
  "newOrganizer =
     \<lparr>files = [], config = None, organizationLog = [], validationResults = None,
      organizationReport = None, tick = 0\<rparr>"


section \<open>The extractor\<close>

subsection \<open>Headers\<close>




record header =
  title :: string
  index :: nat
  fullMatch :: string



subsection \<open>Cleaning a section\<close>







subsection \<open>File data\<close>


















section \<open>Notions used in the properties\<close>

text \<open>An operation and a log entry without what was read from the clock and the
  random number generator.\<close>

fun eraseTime :: "operation \<Rightarrow> operation" where
  "eraseTime (OpRename a b t) = OpRename a b []"
| "eraseTime (OpChangeExtension a b c d t) = OpChangeExtension a b c d []"
| "eraseTime (OpMove a b c t) = OpMove a b c []"
| "eraseTime (OpUpdateContent a b c d t) = OpUpdateContent a b c d []"
| "eraseTime (OpCopy a b c t) = OpCopy a b c []"
| "eraseTime (OpMerge a b c t) = OpMerge a b c []"
| "eraseTime (OpSplit a b c t) = OpSplit a b c []"
| "eraseTime (OpMergedInto a t) = OpMergedInto a []"
| "eraseTime (OpSplitInto a t) = OpSplitInto a []"
| "eraseTime (OpSplitFromClass a b t) = OpSplitFromClass a b []"
| "eraseTime (OpSplitFromPart a b t) = OpSplitFromPart a b []"

definition eraseEntry :: "log_entry \<Rightarrow> log_entry" where
  "eraseEntry entry = entry\<lparr>entryOp := eraseTime (entryOp entry), entryId := []\<rparr>"

text \<open>The rule instances of a configuration that apply to a list of files: a rule
  whose file name resolves, once for each destination of a copy rule, and a merge rule
  of which a source resolves.\<close>

definition resolves :: "file_record list \<Rightarrow> string \<Rightarrow> bool" where
  "resolves fs name = (findFileByName fs name \<noteq> None)"

fun sectionOf :: "'a list option \<Rightarrow> 'a list" where
  "sectionOf None = []"
| "sectionOf (Some entries) = entries"

fun mergeRuleApplies :: "file_record list \<Rightarrow> merge_value \<Rightarrow> bool" where
  "mergeRuleApplies fs (NameArray names) = list_ex (resolves fs) names"
| "mergeRuleApplies fs (StringValue s) = False"

definition ruleInstances :: "config_data \<Rightarrow> file_record list \<Rightarrow> nat" where
  "ruleInstances c fs =
     countWhere (\<lambda>kv. resolves fs (fst kv)) (sectionOf (fileRenames c))
     + countWhere (\<lambda>kv. resolves fs (fst kv)) (sectionOf (extensionChanges c))
     + countWhere (\<lambda>kv. resolves fs (fst kv)) (sectionOf (folderMappings c))
     + countWhere (\<lambda>kv. resolves fs (fst kv)) (sectionOf (contentUpdates c))
     + sum_list (map (\<lambda>kv. if resolves fs (fst kv) then length (snd kv) else 0)
                  (sectionOf (copyToMultipleLocations c)))
     + countWhere (\<lambda>kv. mergeRuleApplies fs (snd kv)) (sectionOf (mergeFiles c))
     + countWhere (\<lambda>kv. resolves fs (fst kv)) (sectionOf (splitFiles c))"

subsection \<open>Examples\<close>

text \<open>An environment in which no two reads return the same string, and whose
  engine accepts no pattern outside the modelled fragment.\<close>

definition exampleEnv :: env where
  "exampleEnv =
     \<lparr>isoTime = (\<lambda>n. ''T'' @ replicate n CHR ''+''),
      nowMs = (\<lambda>n. ''1'' @ replicate n CHR ''0''),
      random36 = (\<lambda>n. replicate n CHR ''r''),
      hostRegExp = (\<lambda>src template s. Inl (RegExpSyntaxError src))\<rparr>"

definition emptyConfig :: config_data where
  "emptyConfig =
     \<lparr>fileRenames = None, extensionChanges = None, folderMappings = None,
      contentUpdates = None, copyToMultipleLocations = None, mergeFiles = None,
      splitFiles = None, otherKeys = []\<rparr>"

text \<open>The configuration \<open>{fileRenames: {"a.kt": "B.kt"}, folderMappings: {"a.kt": "src"}}\<close>.\<close>

definition renameThenMapConfig :: config_data where
  "renameThenMapConfig =
     emptyConfig\<lparr>fileRenames := Some [(''a.kt'', ''B.kt'')],
                 folderMappings := Some [(''a.kt'', ''src'')]\<rparr>"

text \<open>The working set \<open>[{fileName: "a.kt"}]\<close>, loaded.\<close>

definition exampleOrganizer :: organizer where
  "exampleOrganizer = loadFiles exampleEnv [emptyFile\<lparr>fileName := ''a.kt''\<rparr>] newOrganizer"

text \<open>The example after the rename \<open>a.kt\<close> to \<open>B.kt\<close>, and a working set with a file whose
  name has no dot.\<close>

definition renamedOrganizer :: organizer where
  "renamedOrganizer = final (renameEntry exampleEnv False (''a.kt'', ''B.kt'') exampleOrganizer)"

definition dotlessOrganizer :: organizer where
  "dotlessOrganizer = loadFiles exampleEnv [emptyFile\<lparr>fileName := ''README''\<rparr>] newOrganizer"


text \<open>The configuration \<open>{folderMappings: {"a.kt": "../etc"}}\<close>.\<close>

definition unsafeConfig :: config_data where
  "unsafeConfig = emptyConfig\<lparr>folderMappings := Some [(''a.kt'', ''../etc'')]\<rparr>"

subsection \<open>What a dry run logs\<close>

text \<open>
  For each kind of rule, the operations that a dry run logs for one entry, without
  their time stamps, and the exception that the entry throws, as functions of the
  files. \<open>runPlan\<close> is the loop over the entries, which stops at an exception.
\<close>

type_synonym plan = "operation list \<times> error option"

fun runPlan :: "('a \<Rightarrow> plan) \<Rightarrow> 'a list \<Rightarrow> plan" where
  "runPlan p [] = ([], None)"
| "runPlan p (x # xs) =
     (case snd (p x) of
        Some err \<Rightarrow> p x
      | None \<Rightarrow> (fst (p x) @ fst (runPlan p xs), snd (runPlan p xs)))"

definition thenPlan :: "plan \<Rightarrow> plan \<Rightarrow> plan" where
  "thenPlan p q = (case snd p of Some err \<Rightarrow> p | None \<Rightarrow> (fst p @ fst q, snd q))"

definition dryEntry :: "operation \<Rightarrow> log_entry" where
  "dryEntry op = \<lparr>entryOp = op, dryRun = True, entryId = []\<rparr>"

definition dryEffect :: "organizer \<Rightarrow> outcome \<Rightarrow> plan \<Rightarrow> bool" where
  "dryEffect st out p =
     (files (final out) = files st \<and> config (final out) = config st
      \<and> thrown out = snd p
      \<and> map eraseEntry (organizationLog (final out))
          = map eraseEntry (organizationLog st) @ map dryEntry (fst p))"

definition renamePlan :: "file_record list \<Rightarrow> string \<times> string \<Rightarrow> plan" where
  "renamePlan fs kv =
     (case findFileByName fs (fst kv) of
        None \<Rightarrow> ([], None)
      | Some i \<Rightarrow> ([OpRename (currentPath (fs ! i)) (snd kv) []], None))"

definition extensionPlan :: "file_record list \<Rightarrow> string \<times> string \<Rightarrow> plan" where
  "extensionPlan fs kv =
     (case findFileByName fs (fst kv) of
        None \<Rightarrow> ([], None)
      | Some i \<Rightarrow>
          ([OpChangeExtension (currentPath (fs ! i))
              (substring (fst kv) 0 (lastIndexOf (fst kv) CHR ''.'') @ ''.'' @ snd kv)
              (extension (fs ! i)) (snd kv) []], None))"

definition folderPlan :: "file_record list \<Rightarrow> string \<times> string \<Rightarrow> plan" where
  "folderPlan fs kv =
     (case findFileByName fs (fst kv) of
        None \<Rightarrow> ([], None)
      | Some i \<Rightarrow>
          ([OpMove (currentPath (fs ! i)) (joinPath (Some (snd kv)) (fileName (fs ! i)))
              (snd kv) []], None))"

definition contentPlan :: "env \<Rightarrow> file_record list \<Rightarrow> string \<times> content_update \<Rightarrow> plan" where
  "contentPlan e fs kv =
     (case findFileByName fs (fst kv) of
        None \<Rightarrow> ([], None)
      | Some i \<Rightarrow>
          (case updatedContent e (snd kv) (content (fs ! i)) of
             Inl err \<Rightarrow> ([], Some err)
           | Inr newContent \<Rightarrow>
               ([OpUpdateContent (fst kv) (snd kv) (length (content (fs ! i)))
                   (length newContent) []], None)))"

definition copyLocationPlan :: "file_record list \<Rightarrow> string \<Rightarrow> nat \<Rightarrow> nat \<times> location \<Rightarrow> plan" where
  "copyLocationPlan fs name i il =
     ([OpCopy name
         (joinPath (loc_folder (snd il))
            (if truthy (loc_name (snd il)) then the (loc_name (snd il)) else name))
         (fileId (fs ! i) @ ''_copy_'' @ showNat (fst il)) []], None)"

definition copyPlan :: "file_record list \<Rightarrow> string \<times> location list \<Rightarrow> plan" where
  "copyPlan fs kv =
     (case findFileByName fs (fst kv) of
        None \<Rightarrow> ([], None)
      | Some i \<Rightarrow> runPlan (copyLocationPlan fs (fst kv) i) (enumerate 0 (snd kv)))"

definition mergePlan ::
    "file_record list \<Rightarrow> (string \<times> merge_value) list \<Rightarrow> string \<times> merge_value \<Rightarrow> plan" where
  "mergePlan fs cfg kv =
     (case snd kv of
        StringValue s \<Rightarrow> ([], Some (TypeError ''sourceFiles.map is not a function''))
      | NameArray sourceFiles \<Rightarrow>
          let sources = List.map_filter (findFileByName fs) sourceFiles
          in if sources = [] then ([], None)
             else (case mergeFileContents (map (\<lambda>i. fs ! i) sources) (mergeStrategyOf cfg) of
                     Inl err \<Rightarrow> ([], Some err)
                   | Inr mergedContent \<Rightarrow>
                       ([OpMerge (NameArray sourceFiles) (fst kv) (map_of cfg ''mergeStrategy'') []],
                        None)))"

definition splitPlan :: "env \<Rightarrow> file_record list \<Rightarrow> string \<times> split_config \<Rightarrow> plan" where
  "splitPlan e fs kv =
     (case findFileByName fs (fst kv) of
        None \<Rightarrow> ([], None)
      | Some i \<Rightarrow>
          ([OpSplit (fst kv) (map fileName (fst (splitFileContent e (fs ! i) (snd kv) 0)))
              (strategy (snd kv)) []], None))"

definition configPlan :: "env \<Rightarrow> config_data \<Rightarrow> file_record list \<Rightarrow> plan" where
  "configPlan e c fs =
     thenPlan (thenPlan (thenPlan (thenPlan (thenPlan (thenPlan
       (runPlan (renamePlan fs) (sectionOf (fileRenames c)))
       (runPlan (extensionPlan fs) (sectionOf (extensionChanges c))))
       (runPlan (folderPlan fs) (sectionOf (folderMappings c))))
       (runPlan (contentPlan e fs) (sectionOf (contentUpdates c))))
       (runPlan (copyPlan fs) (sectionOf (copyToMultipleLocations c))))
       (runPlan (mergePlan fs (sectionOf (mergeFiles c))) (sectionOf (mergeFiles c))))
       (runPlan (splitPlan e fs) (sectionOf (splitFiles c)))"

text \<open>The example with \<open>renameThenMapConfig\<close> loaded, and the options of a dry run.\<close>

definition loadedExample :: organizer where
  "loadedExample = final (loadConfig (Some renameThenMapConfig) exampleOrganizer)"

definition dryOptions :: options where
  "dryOptions = defaultOptions\<lparr>optDryRun := True\<rparr>"

subsection \<open>Literal replacement\<close>








subsection \<open>Occurrences\<close>

text \<open>The number of positions of \<open>s\<close> at which \<open>needle\<close> occurs.\<close>

fun countOccurrences :: "string \<Rightarrow> string \<Rightarrow> nat" where
  "countOccurrences needle [] = (if needle = [] then 1 else 0)"
| "countOccurrences needle (c # cs) =
     (if startsWith (c # cs) needle then 1 else 0) + countOccurrences needle cs"

text \<open>Two Kotlin files with the same import line, and the section
  \<open>mergeFiles: {"AB.kt": ["A.kt", "B.kt"], "mergeStrategy": "package_merge"}\<close>.\<close>

definition kotlinA :: file_record where
  "kotlinA = emptyFile\<lparr>fileName := ''A.kt'', content := ''import a.b\<newline>class A''\<rparr>"

definition kotlinB :: file_record where
  "kotlinB = emptyFile\<lparr>fileName := ''B.kt'', content := ''import a.b\<newline>class B''\<rparr>"

definition kotlinOrganizer :: organizer where
  "kotlinOrganizer = loadFiles exampleEnv [kotlinA, kotlinB] newOrganizer"

definition packageMergeSection :: "(string \<times> merge_value) list" where
  "packageMergeSection =
     [(''AB.kt'', NameArray [''A.kt'', ''B.kt'']), (''mergeStrategy'', StringValue ''package_merge'')]"

subsection \<open>Sections\<close>









section \<open>Properties\<close>

subsection \<open>Finding a file\<close>

lemma findIndex_Some:
  "findIndex P xs = Some i \<Longrightarrow> i < length xs \<and> P (xs ! i)"
  by (induction xs arbitrary: i) (auto split: if_splits)


lemma findFileByName_bound:
  "findFileByName fs name = Some i \<Longrightarrow> i < length fs"
  by (auto simp: findFileByName_def dest: findIndex_Some)

subsection \<open>Rename, then folder mapping\<close>

text \<open>
  C3. The working set is \<open>[{fileName: "a.kt"}]\<close>, whatever the other properties of the
  file are, and the configuration is \<open>renameThenMapConfig\<close>. The configuration loads,
  the run returns, the file is renamed first and moved second, and in the end its
  \<open>fileName\<close> is \<open>B.kt\<close> and its \<open>currentPath\<close> is \<open>src/B.kt\<close>: the folder mapping, whose key
  is the name before the rename, has found the file by its \<open>originalPath\<close>.
\<close>

theorem rename_then_folder_mapping:
  "\<exists>st st' file t1 t2.
      loadConfig (Some renameThenMapConfig)
        (loadFiles e [f\<lparr>fileName := ''a.kt''\<rparr>] newOrganizer) = Done st
    \<and> organizeFiles e (opts\<lparr>optDryRun := False\<rparr>) st = Done st'
    \<and> files st' = [file]
    \<and> fileName file = ''B.kt''
    \<and> currentPath file = ''src/B.kt''
    \<and> originalPath file = Some ''a.kt''
    \<and> operations file = [OpRename ''a.kt'' ''B.kt'' t1, OpMove ''B.kt'' ''src/B.kt'' ''src'' t2]"
  by (simp add: renameThenMapConfig_def emptyConfig_def loadConfig_def loadFiles_def
      newOrganizer_def validateAndNormalizeConfig_def Let_def startsWith_def
      organizeFiles_def applyAll_def applyFileRenames_def applyFolderMappings_def
      renameEntry_def folderEntry_def findFileByName_def matchesName_def logOperation_def
      joinPath_def endsWith_def validateOrganizationResults_def
      generateOrganizationReport_def split: prod.splits)

subsection \<open>Extension changes\<close>

lemma lastIndexOf_absent: "c \<notin> set s \<Longrightarrow> lastIndexOf s c = -1"
  by (auto simp: lastIndexOf_def dropWhile_eq_Nil_conv)

lemma lastIndexOf_last: "c \<notin> set x \<Longrightarrow> lastIndexOf (b @ c # x) c = int (length b)"
proof -
  assume a: "c \<notin> set x"
  have "dropWhile (\<lambda>y. y \<noteq> c) (rev x @ c # rev b) = c # rev b"
    using a by (auto simp: dropWhile_append3)
  then show ?thesis by (simp add: lastIndexOf_def)
qed

lemma base_of_dotted_key:
  "CHR ''.'' \<notin> set x \<Longrightarrow>
     substring (b @ ''.'' @ x) 0 (lastIndexOf (b @ ''.'' @ x) CHR ''.'') = b"
  by (simp add: lastIndexOf_last substring_def Let_def)

lemma base_of_dotless_key:
  "CHR ''.'' \<notin> set x \<Longrightarrow> substring x 0 (lastIndexOf x CHR ''.'') = []"
  by (simp add: lastIndexOf_absent substring_def Let_def)

text \<open>
  C10. An extension rule \<open>key: newExtension\<close> that resolves to the file at position \<open>i\<close>
  (by its \<open>fileName\<close>, its \<open>originalPath\<close> or its \<open>currentPath\<close>) gives that file the name
  made of the base of the key and the new extension, whatever the file was called
  before: if the key is \<open>b.x\<close> with no dot in \<open>x\<close>, the name is \<open>b.newExtension\<close>, and if the
  key has no dot, the base is empty and the name is \<open>.newExtension\<close>. \<open>currentPath\<close> gets
  the same value.
\<close>

theorem extension_change_takes_base_from_key:
  assumes "findFileByName (files st) key = Some i"
    and "CHR ''.'' \<notin> set x"
    and "key = b @ ''.'' @ x \<or> (key = x \<and> b = [])"
  shows "\<exists>st'. extensionEntry e False (key, newExtension) st = Done st'
           \<and> length (files st') = length (files st)
           \<and> fileName (files st' ! i) = b @ ''.'' @ newExtension
           \<and> currentPath (files st' ! i) = b @ ''.'' @ newExtension
           \<and> extension (files st' ! i) = newExtension
           \<and> status (files st' ! i) = ExtensionChanged"
proof -
  from assms(1) have i: "i < length (files st)"
    by (rule findFileByName_bound)
  from assms(2,3) have base: "substring key 0 (lastIndexOf key CHR ''.'') = b"
    using base_of_dotted_key[of x b] base_of_dotless_key[of x] by auto
  show ?thesis
    using assms(1) i base by (simp add: extensionEntry_def Let_def logOperation_def)
qed

theorem extension_change_takes_base_from_key_witness:
  "fileName (files renamedOrganizer ! 0) = ''B.kt''
   \<and> findFileByName (files renamedOrganizer) ''a.kt'' = Some 0
   \<and> (\<exists>st'. extensionEntry exampleEnv False (''a.kt'', ''java'') renamedOrganizer = Done st'
          \<and> fileName (files st' ! 0) = ''a.java'' \<and> currentPath (files st' ! 0) = ''a.java'')
   \<and> findFileByName (files dotlessOrganizer) ''README'' = Some 0
   \<and> (\<exists>st'. extensionEntry exampleEnv False (''README'', ''md'') dotlessOrganizer = Done st'
          \<and> fileName (files st' ! 0) = ''.md'' \<and> currentPath (files st' ! 0) = ''.md'')"
proof -
  have n: "fileName (files renamedOrganizer ! 0) = ''B.kt''"
    by (simp add: renamedOrganizer_def exampleOrganizer_def loadFiles_def newOrganizer_def
        emptyFile_def renameEntry_def findFileByName_def matchesName_def logOperation_def Let_def)
  have r: "findFileByName (files renamedOrganizer) ''a.kt'' = Some 0"
    by (simp add: renamedOrganizer_def exampleOrganizer_def loadFiles_def newOrganizer_def
        emptyFile_def renameEntry_def findFileByName_def matchesName_def logOperation_def Let_def)
  have d: "findFileByName (files dotlessOrganizer) ''README'' = Some 0"
    by (simp add: dotlessOrganizer_def loadFiles_def newOrganizer_def emptyFile_def
        findFileByName_def matchesName_def)
  have x1: "CHR ''.'' \<notin> set ''kt''" and x2: "CHR ''.'' \<notin> set ''README''" by simp_all
  have k1: "''a.kt'' = ''a'' @ ''.'' @ ''kt'' \<or> (''a.kt'' = ''kt'' \<and> ''a'' = [])" by simp
  have k2: "''README'' = [] @ ''.'' @ ''README'' \<or> (''README'' = ''README'' \<and> ([]::string) = [])"
    by simp
  from extension_change_takes_base_from_key[OF r x1 k1, of exampleEnv "''java''"]
    extension_change_takes_base_from_key[OF d x2 k2, of exampleEnv "''md''"] n r d
  show ?thesis by auto
qed

subsection \<open>An unsafe folder\<close>

lemma unsafe_path_error:
  assumes "folderMappings c = Some m" "(k, p) \<in> set m"
    "includesStr p ''..'' \<or> startsWith p ''/''"
  shows "UnsafeFolderPath p \<in> set (errors (validateAndNormalizeConfig (Some c)))"
  using assms by (force simp: validateAndNormalizeConfig_def Let_def)

text \<open>
  C7. When a value \<open>p\<close> of \<open>folderMappings\<close> contains \<open>..\<close> or starts with \<open>/\<close>, the check
  returns \<open>isValid: false\<close> and its errors name \<open>p\<close>. \<open>loadConfig\<close> then throws, leaving the
  files and the log as they were, and in the organizer it leaves behind every call of
  \<open>organizeFiles\<close> throws at once and changes nothing: no operation runs with that
  configuration.
\<close>

theorem unsafe_folder_is_rejected:
  assumes "folderMappings c = Some m" and "(k, p) \<in> set m"
    and "includesStr p ''..'' \<or> startsWith p ''/''"
  shows "\<not> isValid (validateAndNormalizeConfig (Some c))
       \<and> errors (validateAndNormalizeConfig (Some c)) \<noteq> []
       \<and> UnsafeFolderPath p \<in> set (errors (validateAndNormalizeConfig (Some c)))
       \<and> (\<exists>st'. loadConfig (Some c) st
                   = Threw (InvalidConfig (errors (validateAndNormalizeConfig (Some c)))) st'
              \<and> files st' = files st \<and> organizationLog st' = organizationLog st
              \<and> organizeFiles e opts st' = Threw ConfigNotLoaded st')"
proof -
  let ?v = "validateAndNormalizeConfig (Some c)"
  have err: "UnsafeFolderPath p \<in> set (errors ?v)"
    using assms by (rule unsafe_path_error)
  then have ne: "errors ?v \<noteq> []" by auto
  have "isValid ?v = (errors ?v = [])"
    by (simp add: validateAndNormalizeConfig_def Let_def)
  with ne have inv: "\<not> isValid ?v" by simp
  show ?thesis
    using inv err ne by (simp add: loadConfig_def Let_def organizeFiles_def)
qed

theorem unsafe_folder_is_rejected_witness:
  "includesStr ''../etc'' ''..''
   \<and> \<not> isValid (validateAndNormalizeConfig (Some unsafeConfig))
   \<and> errors (validateAndNormalizeConfig (Some unsafeConfig)) = [UnsafeFolderPath ''../etc'']
   \<and> (\<exists>st'. loadConfig (Some unsafeConfig) exampleOrganizer
               = Threw (InvalidConfig [UnsafeFolderPath ''../etc'']) st'
          \<and> files st' = files exampleOrganizer
          \<and> organizeFiles exampleEnv defaultOptions st' = Threw ConfigNotLoaded st')"
proof -
  have m: "folderMappings unsafeConfig = Some [(''a.kt'', ''../etc'')]"
    by (simp add: unsafeConfig_def emptyConfig_def)
  have i: "(''a.kt'', ''../etc'') \<in> set [(''a.kt'', ''../etc'')]" by simp
  have u: "includesStr ''../etc'' ''..'' \<or> startsWith ''../etc'' ''/''"
    by (simp add: startsWith_def)
  have u': "includesStr ''../etc'' ''..''" by (simp add: startsWith_def)
  have errs: "errors (validateAndNormalizeConfig (Some unsafeConfig)) = [UnsafeFolderPath ''../etc'']"
    by (simp add: unsafeConfig_def emptyConfig_def validateAndNormalizeConfig_def Let_def
        startsWith_def)
  from unsafe_folder_is_rejected[OF m i u, of exampleOrganizer exampleEnv defaultOptions] errs u'
  show ?thesis by auto
qed

subsection \<open>Duplicate paths after a run\<close>





theorem rename_then_folder_mapping_witness:
  "\<exists>st st' file.
      loadConfig (Some renameThenMapConfig)
        (loadFiles exampleEnv [emptyFile\<lparr>fileName := ''a.kt''\<rparr>] newOrganizer) = Done st
    \<and> organizeFiles exampleEnv (defaultOptions\<lparr>optDryRun := False\<rparr>) st = Done st'
    \<and> files st' = [file]
    \<and> fileName file = ''B.kt''
    \<and> currentPath file = ''src/B.kt''"
  using rename_then_folder_mapping[of exampleEnv emptyFile defaultOptions] by blast

subsection \<open>Dry runs\<close>

text \<open>Each kind of entry, run dry, has the effect that its plan describes.\<close>

lemma forEach_dry:
  assumes step: "\<And>x st. dryEffect st (f x st) (p (files st) x)"
  shows "dryEffect st (forEach f xs st) (runPlan (p (files st)) xs)"
proof (induction xs arbitrary: st)
  case Nil
  then show ?case by (simp add: dryEffect_def)
next
  case (Cons x xs)
  show ?case
  proof (cases "f x st")
    case (Done st')
    from step[of st x] Done have s: "files st' = files st" "config st' = config st"
      "snd (p (files st) x) = None"
      "map eraseEntry (organizationLog st') = map eraseEntry (organizationLog st) @ map dryEntry (fst (p (files st) x))"
      by (simp_all add: dryEffect_def)
    from Cons.IH[of st'] s show ?thesis
      using Done by (simp add: dryEffect_def)
  next
    case (Threw err st')
    from step[of st x] Threw have t: "files st' = files st" "config st' = config st"
      "snd (p (files st) x) = Some err"
      "map eraseEntry (organizationLog st') = map eraseEntry (organizationLog st) @ map dryEntry (fst (p (files st) x))"
      by (simp_all add: dryEffect_def)
    then show ?thesis
      using Threw by (simp add: dryEffect_def)
  qed
qed

lemma eraseEntry_log [simp]:
  "eraseEntry \<lparr>entryOp = op, dryRun = d, entryId = i\<rparr> = \<lparr>entryOp = eraseTime op, dryRun = d, entryId = []\<rparr>"
  by (simp add: eraseEntry_def)

lemma rename_dry: "dryEffect st (renameEntry e True kv st) (renamePlan (files st) kv)"
  by (simp add: dryEffect_def renameEntry_def renamePlan_def logOperation_def Let_def dryEntry_def
      split: option.splits)

lemma extension_dry: "dryEffect st (extensionEntry e True kv st) (extensionPlan (files st) kv)"
  by (simp add: dryEffect_def extensionEntry_def extensionPlan_def logOperation_def Let_def dryEntry_def
      split: option.splits)

lemma folder_dry: "dryEffect st (folderEntry e True kv st) (folderPlan (files st) kv)"
  by (simp add: dryEffect_def folderEntry_def folderPlan_def logOperation_def Let_def dryEntry_def
      split: option.splits)

lemma content_dry: "dryEffect st (contentEntry e True kv st) (contentPlan e (files st) kv)"
  by (simp add: dryEffect_def contentEntry_def contentPlan_def logOperation_def Let_def dryEntry_def
      split: option.splits sum.splits)

lemma copyLocation_dry:
  "dryEffect st (copyLocation e True name i il st) (copyLocationPlan (files st) name i il)"
  by (simp add: dryEffect_def copyLocation_def copyLocationPlan_def logOperation_def Let_def dryEntry_def)

lemma copy_dry: "dryEffect st (copyEntry e True kv st) (copyPlan (files st) kv)"
proof (cases "findFileByName (files st) (fst kv)")
  case None
  then show ?thesis by (simp add: copyEntry_def copyPlan_def dryEffect_def)
next
  case (Some i)
  have "dryEffect st (forEach (copyLocation e True (fst kv) i) (enumerate 0 (snd kv)) st)
          (runPlan (\<lambda>il. copyLocationPlan (files st) (fst kv) i il) (enumerate 0 (snd kv)))"
    by (rule forEach_dry[where p = "\<lambda>fs il. copyLocationPlan fs (fst kv) i il"]) (rule copyLocation_dry)
  with Some show ?thesis by (simp add: copyEntry_def copyPlan_def)
qed

lemma merge_dry: "dryEffect st (mergeEntry e True cfg kv st) (mergePlan (files st) cfg kv)"
  by (simp add: dryEffect_def mergeEntry_def mergePlan_def logOperation_def Let_def dryEntry_def
      split: merge_value.splits sum.splits)


lemma fileName_splitResult [simp]:
  "fileName (splitResult e f name body k mk n) = name"
  by (simp add: splitResult_def)

lemma split_names_independent:
  "map fileName (fst (splitFileContent e f c n)) = map fileName (fst (splitFileContent e' f c n'))"
  by (simp add: splitFileContent_def splitClass_def splitPart_def Let_def case_prod_beta comp_def)

lemma split_dry: "dryEffect st (splitEntry e True kv st) (splitPlan e (files st) kv)"
proof (cases "findFileByName (files st) (fst kv)")
  case None
  then show ?thesis by (simp add: splitEntry_def splitPlan_def dryEffect_def)
next
  case (Some i)
  obtain sf n where sp: "splitFileContent e (files st ! i) (snd kv) (tick st) = (sf, n)"
    by (cases "splitFileContent e (files st ! i) (snd kv) (tick st)")
  have "map fileName sf = map fileName (fst (splitFileContent e (files st ! i) (snd kv) 0))"
    using split_names_independent[of e "files st ! i" "snd kv" "tick st" e 0] sp by simp
  with Some sp show ?thesis
    by (simp add: splitEntry_def splitPlan_def dryEffect_def logOperation_def Let_def dryEntry_def)
qed

lemma dryEffect_andThen:
  assumes a: "dryEffect st out p"
    and b: "\<And>st'. files st' = files st \<Longrightarrow> dryEffect st' (g st') q"
  shows "dryEffect st (andThen out g) (thenPlan p q)"
proof (cases out)
  case (Done st')
  with a have s: "files st' = files st" "config st' = config st" "snd p = None"
    "map eraseEntry (organizationLog st') = map eraseEntry (organizationLog st) @ map dryEntry (fst p)"
    by (simp_all add: dryEffect_def)
  from b[OF s(1)] s Done show ?thesis
    by (simp add: dryEffect_def thenPlan_def)
next
  case (Threw err st')
  with a have s: "files st' = files st" "config st' = config st" "snd p = Some err"
    "map eraseEntry (organizationLog st') = map eraseEntry (organizationLog st) @ map dryEntry (fst p)"
    by (simp_all add: dryEffect_def)
  then show ?thesis using Threw
    by (simp add: dryEffect_def thenPlan_def)
qed

lemma renames_dry:
  "dryEffect st (applyOperation sec (applyFileRenames e) True st) (runPlan (renamePlan (files st)) (sectionOf sec))"
proof (cases sec)
  case None
  then show ?thesis by (simp add: dryEffect_def)
next
  case (Some entries)
  then show ?thesis
    using forEach_dry[of "renameEntry e True" renamePlan st entries, OF rename_dry]
    by (simp add: applyFileRenames_def)
qed

lemma extensions_dry:
  "dryEffect st (applyOperation sec (applyExtensionChanges e) True st) (runPlan (extensionPlan (files st)) (sectionOf sec))"
proof (cases sec)
  case None
  then show ?thesis by (simp add: dryEffect_def)
next
  case (Some entries)
  then show ?thesis
    using forEach_dry[of "extensionEntry e True" extensionPlan st entries, OF extension_dry]
    by (simp add: applyExtensionChanges_def)
qed

lemma folders_dry:
  "dryEffect st (applyOperation sec (applyFolderMappings e) True st) (runPlan (folderPlan (files st)) (sectionOf sec))"
proof (cases sec)
  case None
  then show ?thesis by (simp add: dryEffect_def)
next
  case (Some entries)
  then show ?thesis
    using forEach_dry[of "folderEntry e True" folderPlan st entries, OF folder_dry]
    by (simp add: applyFolderMappings_def)
qed

lemma contents_dry:
  "dryEffect st (applyOperation sec (applyContentUpdates e) True st) (runPlan (contentPlan e (files st)) (sectionOf sec))"
proof (cases sec)
  case None
  then show ?thesis by (simp add: dryEffect_def)
next
  case (Some entries)
  then show ?thesis
    using forEach_dry[of "contentEntry e True" "contentPlan e" st entries, OF content_dry]
    by (simp add: applyContentUpdates_def)
qed

lemma copies_dry:
  "dryEffect st (applyOperation sec (applyCopyToMultipleLocations e) True st) (runPlan (copyPlan (files st)) (sectionOf sec))"
proof (cases sec)
  case None
  then show ?thesis by (simp add: dryEffect_def)
next
  case (Some entries)
  then show ?thesis
    using forEach_dry[of "copyEntry e True" copyPlan st entries, OF copy_dry]
    by (simp add: applyCopyToMultipleLocations_def)
qed

lemma merges_dry:
  "dryEffect st (applyOperation sec (applyMergeFiles e) True st)
     (runPlan (mergePlan (files st) (sectionOf sec)) (sectionOf sec))"
proof (cases sec)
  case None
  then show ?thesis by (simp add: dryEffect_def)
next
  case (Some entries)
  then show ?thesis
    using forEach_dry[of "mergeEntry e True entries" "\<lambda>fs. mergePlan fs entries" st entries, OF merge_dry]
    by (simp add: applyMergeFiles_def)
qed

lemma splits_dry:
  "dryEffect st (applyOperation sec (applySplitFiles e) True st) (runPlan (splitPlan e (files st)) (sectionOf sec))"
proof (cases sec)
  case None
  then show ?thesis by (simp add: dryEffect_def)
next
  case (Some entries)
  then show ?thesis
    using forEach_dry[of "splitEntry e True" "splitPlan e" st entries, OF split_dry]
    by (simp add: applySplitFiles_def)
qed


lemma dryEffect_then:
  assumes a: "dryEffect st out p"
    and b: "\<And>st'. dryEffect st' (g st') (q (files st'))"
  shows "dryEffect st (andThen out g) (thenPlan p (q (files st)))"
  using dryEffect_andThen[OF a, of g "q (files st)"] b by metis

lemma applyAll_dry: "dryEffect st (applyAll e c True st) (configPlan e c (files st))"
  unfolding applyAll_def configPlan_def
  apply (rule dryEffect_then[where q = "\<lambda>fs. runPlan (splitPlan e fs) (sectionOf (splitFiles c))"])
   apply (rule dryEffect_then[where q = "\<lambda>fs. runPlan (mergePlan fs (sectionOf (mergeFiles c))) (sectionOf (mergeFiles c))"])
    apply (rule dryEffect_then[where q = "\<lambda>fs. runPlan (copyPlan fs) (sectionOf (copyToMultipleLocations c))"])
     apply (rule dryEffect_then[where q = "\<lambda>fs. runPlan (contentPlan e fs) (sectionOf (contentUpdates c))"])
      apply (rule dryEffect_then[where q = "\<lambda>fs. runPlan (folderPlan fs) (sectionOf (folderMappings c))"])
       apply (rule dryEffect_then[where q = "\<lambda>fs. runPlan (extensionPlan fs) (sectionOf (extensionChanges c))"])
        apply (rule renames_dry)
       apply (rule extensions_dry)
      apply (rule folders_dry)
     apply (rule contents_dry)
    apply (rule copies_dry)
   apply (rule merges_dry)
  apply (rule splits_dry)
  done

text \<open>The number of operations in the plan of a run that does not throw.\<close>

lemma runPlan_ok:
  "snd (runPlan p xs) = None \<Longrightarrow>
     list_all (\<lambda>x. snd (p x) = None) xs
     \<and> length (fst (runPlan p xs)) = sum_list (map (\<lambda>x. length (fst (p x))) xs)"
  by (induction xs) (auto split: option.splits)

lemma thenPlan_ok:
  "snd (thenPlan p q) = None \<Longrightarrow>
     snd p = None \<and> snd q = None \<and> length (fst (thenPlan p q)) = length (fst p) + length (fst q)"
  by (auto simp: thenPlan_def split: option.splits)

lemma sum_list_indicator:
  "sum_list (map (\<lambda>x. if P x then 1 else 0) xs) = countWhere P xs"
  by (induction xs) (simp_all add: countWhere_def)

lemma sum_list_cong_all:
  "list_all (\<lambda>x. f x = g x) xs \<Longrightarrow> sum_list (map f xs) = (sum_list (map g xs) :: nat)"
  by (induction xs) simp_all

lemma renamePlan_length:
  "length (fst (renamePlan fs kv)) = (if resolves fs (fst kv) then 1 else 0)"
  by (simp add: renamePlan_def resolves_def split: option.splits)

lemma extensionPlan_length:
  "length (fst (extensionPlan fs kv)) = (if resolves fs (fst kv) then 1 else 0)"
  by (simp add: extensionPlan_def resolves_def split: option.splits)

lemma folderPlan_length:
  "length (fst (folderPlan fs kv)) = (if resolves fs (fst kv) then 1 else 0)"
  by (simp add: folderPlan_def resolves_def split: option.splits)

lemma splitPlan_length:
  "length (fst (splitPlan e fs kv)) = (if resolves fs (fst kv) then 1 else 0)"
  by (simp add: splitPlan_def resolves_def split: option.splits)

lemma contentPlan_length:
  "snd (contentPlan e fs kv) = None \<Longrightarrow>
     length (fst (contentPlan e fs kv)) = (if resolves fs (fst kv) then 1 else 0)"
  by (auto simp: contentPlan_def resolves_def split: option.splits sum.splits)

lemma copyLocations_plan:
  "snd (runPlan (copyLocationPlan fs name i) ils) = None
   \<and> length (fst (runPlan (copyLocationPlan fs name i) ils)) = length ils"
  by (induction ils) (simp_all add: copyLocationPlan_def)

lemma copyPlan_length:
  "length (fst (copyPlan fs kv)) = (if resolves fs (fst kv) then length (snd kv) else 0)"
  by (simp add: copyPlan_def resolves_def copyLocations_plan split: option.splits)

lemma map_filter_nonempty:
  "(List.map_filter f xs \<noteq> []) = list_ex (\<lambda>x. f x \<noteq> None) xs"
  by (induction xs) (auto simp: List.map_filter_def)

lemma mergePlan_length:
  "snd (mergePlan fs cfg kv) = None \<Longrightarrow>
     length (fst (mergePlan fs cfg kv)) = (if mergeRuleApplies fs (snd kv) then 1 else 0)"
proof (cases "snd kv")
  case (NameArray names)
  assume ok: "snd (mergePlan fs cfg kv) = None"
  have r: "list_ex (resolves fs) names = (List.map_filter (findFileByName fs) names \<noteq> [])"
    unfolding map_filter_nonempty resolves_def ..
  show ?thesis
    using ok NameArray r
    by (auto simp: mergePlan_def Let_def split: sum.splits if_splits)
next
  case (StringValue s)
  assume "snd (mergePlan fs cfg kv) = None"
  with StringValue show ?thesis by (simp add: mergePlan_def)
qed

lemma section_count:
  assumes ok: "snd (runPlan p xs) = None"
    and len: "\<And>x. snd (p x) = None \<Longrightarrow> length (fst (p x)) = (if P x then 1 else 0)"
  shows "length (fst (runPlan p xs)) = countWhere P xs"
proof -
  from runPlan_ok[OF ok] have a: "list_all (\<lambda>x. snd (p x) = None) xs"
    and l: "length (fst (runPlan p xs)) = sum_list (map (\<lambda>x. length (fst (p x))) xs)" by simp_all
  from a have "list_all (\<lambda>x. length (fst (p x)) = (if P x then 1 else 0)) xs"
    by (induction xs) (simp_all add: len)
  from sum_list_cong_all[OF this] l show ?thesis
    by (simp add: sum_list_indicator)
qed

lemma configPlan_count:
  assumes "snd (configPlan e c fs) = None"
  shows "length (fst (configPlan e c fs)) = ruleInstances c fs"
proof -
  let ?R = "runPlan (renamePlan fs) (sectionOf (fileRenames c))"
  let ?E = "runPlan (extensionPlan fs) (sectionOf (extensionChanges c))"
  let ?F = "runPlan (folderPlan fs) (sectionOf (folderMappings c))"
  let ?C = "runPlan (contentPlan e fs) (sectionOf (contentUpdates c))"
  let ?P = "runPlan (copyPlan fs) (sectionOf (copyToMultipleLocations c))"
  let ?M = "runPlan (mergePlan fs (sectionOf (mergeFiles c))) (sectionOf (mergeFiles c))"
  let ?S = "runPlan (splitPlan e fs) (sectionOf (splitFiles c))"
  let ?p6 = "thenPlan (thenPlan (thenPlan (thenPlan (thenPlan ?R ?E) ?F) ?C) ?P) ?M"
  let ?p5 = "thenPlan (thenPlan (thenPlan (thenPlan ?R ?E) ?F) ?C) ?P"
  let ?p4 = "thenPlan (thenPlan (thenPlan ?R ?E) ?F) ?C"
  let ?p3 = "thenPlan (thenPlan ?R ?E) ?F"
  let ?p2 = "thenPlan ?R ?E"
  from assms have 7: "snd (thenPlan ?p6 ?S) = None" by (simp add: configPlan_def)
  note t7 = thenPlan_ok[OF 7]
  then have 6: "snd ?p6 = None" by simp
  note t6 = thenPlan_ok[OF 6]
  then have 5: "snd ?p5 = None" by simp
  note t5 = thenPlan_ok[OF 5]
  then have 4: "snd ?p4 = None" by simp
  note t4 = thenPlan_ok[OF 4]
  then have 3: "snd ?p3 = None" by simp
  note t3 = thenPlan_ok[OF 3]
  then have 2: "snd ?p2 = None" by simp
  note t2 = thenPlan_ok[OF 2]
  have r: "length (fst ?R) = countWhere (\<lambda>kv. resolves fs (fst kv)) (sectionOf (fileRenames c))"
    using t2 by (intro section_count) (simp_all add: renamePlan_length)
  have x: "length (fst ?E) = countWhere (\<lambda>kv. resolves fs (fst kv)) (sectionOf (extensionChanges c))"
    using t2 by (intro section_count) (simp_all add: extensionPlan_length)
  have f: "length (fst ?F) = countWhere (\<lambda>kv. resolves fs (fst kv)) (sectionOf (folderMappings c))"
    using t3 by (intro section_count) (simp_all add: folderPlan_length)
  have cu: "length (fst ?C) = countWhere (\<lambda>kv. resolves fs (fst kv)) (sectionOf (contentUpdates c))"
    using t4 by (intro section_count) (simp_all add: contentPlan_length)
  have "length (fst ?P) = sum_list (map (\<lambda>kv. length (fst (copyPlan fs kv))) (sectionOf (copyToMultipleLocations c)))"
    using t5 runPlan_ok[of "copyPlan fs" "sectionOf (copyToMultipleLocations c)"] by simp
  then have cp: "length (fst ?P) = sum_list (map (\<lambda>kv. if resolves fs (fst kv) then length (snd kv) else 0)
                  (sectionOf (copyToMultipleLocations c)))"
    by (simp add: copyPlan_length)
  have m: "length (fst ?M) = countWhere (\<lambda>kv. mergeRuleApplies fs (snd kv)) (sectionOf (mergeFiles c))"
    using t6 by (intro section_count) (simp_all add: mergePlan_length)
  have sp: "length (fst ?S) = countWhere (\<lambda>kv. resolves fs (fst kv)) (sectionOf (splitFiles c))"
    using t7 by (intro section_count) (simp_all add: splitPlan_length)
  have "length (fst (configPlan e c fs)) = length (fst ?R) + length (fst ?E) + length (fst ?F)
          + length (fst ?C) + length (fst ?P) + length (fst ?M) + length (fst ?S)"
    using t2 t3 t4 t5 t6 t7 by (simp add: configPlan_def)
  then show ?thesis
    by (simp add: ruleInstances_def r x f cu cp m sp)
qed

lemma erased_dry_entries:
  "map eraseEntry l = map dryEntry ops \<Longrightarrow> list_all dryRun l \<and> length l = length ops"
proof (induction l arbitrary: ops)
  case Nil
  then show ?case by simp
next
  case (Cons a l)
  then obtain op ops' where o: "ops = op # ops'" by (cases ops) auto
  with Cons.prems have h: "eraseEntry a = dryEntry op" "map eraseEntry l = map dryEntry ops'" by simp_all
  from h(1) have "dryRun a" by (simp add: eraseEntry_def dryEntry_def) (metis log_entry.select_convs(2) log_entry.surjective log_entry.update_convs(1,3))
  with Cons.IH[OF h(2)] o show ?case by simp
qed

lemma organizeFiles_dry:
  assumes "config st = Some v" "isValid v" "data v = Some c" "optDryRun opts"
  shows "dryEffect (st\<lparr>organizationLog := []\<rparr>) (organizeFiles e opts st) (configPlan e c (files st))"
proof -
  let ?st0 = "st\<lparr>organizationLog := []\<rparr>"
  have d: "dryEffect ?st0 (applyAll e c True ?st0) (configPlan e c (files st))"
    using applyAll_dry[of ?st0 e c] by simp
  show ?thesis
  proof (cases "applyAll e c True ?st0")
    case (Done st1)
    with d assms show ?thesis
      by (simp add: organizeFiles_def dryEffect_def validateOrganizationResults_def
          generateOrganizationReport_def Let_def)
  next
    case (Threw err st1)
    with d assms show ?thesis
      by (simp add: organizeFiles_def dryEffect_def)
  qed
qed

text \<open>
  C4. With a valid configuration loaded, a run with \<open>dryRun: true\<close> returns or throws
  with the list of files exactly as it was: no file is changed, added or removed. The
  log it leaves holds only entries marked \<open>dryRun: true\<close>, and when the run returns, it
  holds one entry for each rule instance that applies to the files.
\<close>

theorem dry_run_changes_no_file:
  assumes "config st = Some v" and "isValid v" and "data v = Some c" and "optDryRun opts"
  shows "files (final (organizeFiles e opts st)) = files st
       \<and> list_all dryRun (organizationLog (final (organizeFiles e opts st)))
       \<and> (thrown (organizeFiles e opts st) = None \<longrightarrow>
            length (organizationLog (final (organizeFiles e opts st))) = ruleInstances c (files st))"
proof -
  let ?out = "organizeFiles e opts st"
  from organizeFiles_dry[OF assms, of e]
  have f: "files (final ?out) = files st"
    and t: "thrown ?out = snd (configPlan e c (files st))"
    and l: "map eraseEntry (organizationLog (final ?out)) = map dryEntry (fst (configPlan e c (files st)))"
    by (simp_all add: dryEffect_def)
  from erased_dry_entries[OF l]
  have a: "list_all dryRun (organizationLog (final ?out))"
    and n: "length (organizationLog (final ?out)) = length (fst (configPlan e c (files st)))"
    by simp_all
  show ?thesis
    using f a n t configPlan_count[of e c "files st"] by auto
qed

lemma regexpReplaceGlobal_host:
  "hostRegExp e2 = hostRegExp e1 \<Longrightarrow> regexpReplaceGlobal e2 = regexpReplaceGlobal e1"
  by (intro ext) (simp add: regexpReplaceGlobal_def split: option.splits)

lemma applyReplacements_host:
  assumes "hostRegExp e2 = hostRegExp e1"
  shows "applyReplacements e2 rs s = applyReplacements e1 rs s"
proof -
  have r: "regexpReplaceGlobal e2 = regexpReplaceGlobal e1"
    using assms by (rule regexpReplaceGlobal_host)
  show ?thesis
    by (induction rs arbitrary: s) (simp_all add: r split: sum.splits)
qed

lemma updatedContent_host:
  assumes "hostRegExp e2 = hostRegExp e1"
  shows "updatedContent e2 u s = updatedContent e1 u s"
  by (simp add: updatedContent_def applyReplacements_host[OF assms] split: option.splits)

lemma configPlan_host:
  assumes "hostRegExp e2 = hostRegExp e1"
  shows "configPlan e2 c fs = configPlan e1 c fs"
proof -
  have "contentPlan e2 fs = contentPlan e1 fs"
    by (intro ext) (simp add: contentPlan_def updatedContent_host[OF assms] split: option.splits)
  moreover have "splitPlan e2 fs = splitPlan e1 fs"
    by (intro ext) (simp add: splitPlan_def split_names_independent[of e2 _ _ 0 e1 0] split: option.splits)
  ultimately show ?thesis by (simp add: configPlan_def)
qed

text \<open>
  C5, as amended. Two dry runs in a row with the same options, under environments
  with the same regular-expression engine but any clocks and random numbers, leave
  logs that are equal once the time stamp and the \<open>id\<close> of every entry are erased, and
  the second run throws exactly what the first one threw.
\<close>

theorem dry_run_logs_agree_up_to_clock:
  assumes "hostRegExp e2 = hostRegExp e1" and "optDryRun opts"
  shows "map eraseEntry (organizationLog (final (organizeFiles e2 opts (final (organizeFiles e1 opts st)))))
           = map eraseEntry (organizationLog (final (organizeFiles e1 opts st)))
       \<and> thrown (organizeFiles e2 opts (final (organizeFiles e1 opts st)))
           = thrown (organizeFiles e1 opts st)"
proof (cases "\<exists>v c. config st = Some v \<and> isValid v \<and> data v = Some c")
  case True
  then obtain v c where h: "config st = Some v" "isValid v" "data v = Some c" by blast
  let ?st1 = "final (organizeFiles e1 opts st)"
  from organizeFiles_dry[OF h assms(2), of e1]
  have 1: "files ?st1 = files st" "config ?st1 = config st"
    "thrown (organizeFiles e1 opts st) = snd (configPlan e1 c (files st))"
    "map eraseEntry (organizationLog ?st1) = map dryEntry (fst (configPlan e1 c (files st)))"
    by (simp_all add: dryEffect_def)
  from 1(2) h have h1: "config ?st1 = Some v" by simp
  from organizeFiles_dry[OF h1 h(2,3) assms(2), of e2] 1(1)
  have 2: "thrown (organizeFiles e2 opts ?st1) = snd (configPlan e2 c (files st))"
    "map eraseEntry (organizationLog (final (organizeFiles e2 opts ?st1))) = map dryEntry (fst (configPlan e2 c (files st)))"
    by (simp_all add: dryEffect_def)
  show ?thesis
    using 1 2 configPlan_host[OF assms(1)] by simp
next
  case False
  then have "organizeFiles e1 opts st = Threw ConfigNotLoaded st
           \<or> organizeFiles e1 opts st = Threw (TypeError ''this.config.data is undefined'') st"
    by (auto simp: organizeFiles_def split: option.splits)
  moreover from False have "organizeFiles e2 opts st = organizeFiles e1 opts st"
    by (auto simp: organizeFiles_def split: option.splits)
  ultimately show ?thesis by auto
qed


text \<open>
  C5, as stated, fails: the entries carry the time of the run and a fresh \<open>id\<close>. In the
  example environment, the logs of two dry runs in a row differ.
\<close>

theorem dry_run_logs_differ:
  "organizationLog (final (organizeFiles exampleEnv dryOptions (final (organizeFiles exampleEnv dryOptions loadedExample))))
     \<noteq> organizationLog (final (organizeFiles exampleEnv dryOptions loadedExample))"
  by (simp add: loadedExample_def dryOptions_def defaultOptions_def exampleOrganizer_def
      exampleEnv_def renameThenMapConfig_def emptyConfig_def emptyFile_def
      loadConfig_def loadFiles_def generateId_def
      newOrganizer_def validateAndNormalizeConfig_def Let_def startsWith_def
      organizeFiles_def applyAll_def applyFileRenames_def applyFolderMappings_def
      renameEntry_def folderEntry_def findFileByName_def matchesName_def logOperation_def
      joinPath_def endsWith_def validateOrganizationResults_def
      generateOrganizationReport_def)

theorem dry_run_changes_no_file_witness:
  "optDryRun dryOptions
   \<and> files (final (organizeFiles exampleEnv dryOptions loadedExample)) = files loadedExample
   \<and> list_all dryRun (organizationLog (final (organizeFiles exampleEnv dryOptions loadedExample)))
   \<and> thrown (organizeFiles exampleEnv dryOptions loadedExample) = None
   \<and> length (organizationLog (final (organizeFiles exampleEnv dryOptions loadedExample))) = 2"
proof -
  let ?v = "validateAndNormalizeConfig (Some renameThenMapConfig)"
  have c: "config loadedExample = Some ?v"
    by (simp add: loadedExample_def loadConfig_def Let_def)
  have v: "isValid ?v" and d: "data ?v = Some renameThenMapConfig"
    by (simp_all add: validateAndNormalizeConfig_def renameThenMapConfig_def emptyConfig_def
        Let_def startsWith_def)
  have o: "optDryRun dryOptions"
    by (simp add: dryOptions_def)
  have t: "thrown (organizeFiles exampleEnv dryOptions loadedExample) = None"
    by (simp add: loadedExample_def dryOptions_def defaultOptions_def exampleOrganizer_def
        renameThenMapConfig_def emptyConfig_def emptyFile_def
        loadConfig_def loadFiles_def newOrganizer_def validateAndNormalizeConfig_def Let_def
        startsWith_def organizeFiles_def applyAll_def applyFileRenames_def
        applyFolderMappings_def renameEntry_def folderEntry_def findFileByName_def
        matchesName_def logOperation_def validateOrganizationResults_def
        generateOrganizationReport_def)
  have n: "ruleInstances renameThenMapConfig (files loadedExample) = 2"
    by (simp add: loadedExample_def exampleOrganizer_def renameThenMapConfig_def emptyConfig_def
        emptyFile_def loadConfig_def loadFiles_def newOrganizer_def Let_def
        ruleInstances_def countWhere_def resolves_def findFileByName_def matchesName_def)
  from dry_run_changes_no_file[OF c v d o, of exampleEnv] t n o
  show ?thesis by simp
qed

theorem dry_run_logs_agree_up_to_clock_witness:
  "optDryRun dryOptions
   \<and> map eraseEntry (organizationLog (final (organizeFiles exampleEnv dryOptions
         (final (organizeFiles exampleEnv dryOptions loadedExample)))))
      = map eraseEntry (organizationLog (final (organizeFiles exampleEnv dryOptions loadedExample)))"
proof -
  have o: "optDryRun dryOptions"
    by (simp add: dryOptions_def)
  have h: "hostRegExp exampleEnv = hostRegExp exampleEnv" ..
  from dry_run_logs_agree_up_to_clock[OF h o, of loadedExample] o
  show ?thesis by simp
qed

subsection \<open>Content updates\<close>












subsection \<open>Extraction\<close>

































subsection \<open>Merging with \<open>package_merge\<close>\<close>

lemmas regex_eval = matchAll_def matchAllFrom.simps replaceAll_def replaceAllFrom.simps
  replaceFirst_def matchFirst_def declarationRe_def startsWith_def isSpace_def Let_def

text \<open>
  C6 fails on the code. The two Kotlin files share the import line \<open>import a.b\<close>, which
  has no semicolon; \<open>[^;]+\<close> runs over the line break, so the import of each file is the
  whole file, the two are different members of the set, and the merged content holds
  the line twice. Reached through \<open>applyMergeFiles\<close>, the merge is followed by an
  exception: the loop also visits the entry \<open>mergeStrategy\<close>, whose value is a string.
\<close>

theorem package_merge_repeats_import:
  "mergeFileContents [kotlinA, kotlinB] (StringValue ''package_merge'')
     = Inr ''import a.b\<newline>class A\<newline>import a.b\<newline>class B\<newline>\<newline>\<newline>''
   \<and> countOccurrences ''import a.b'' ''import a.b\<newline>class A\<newline>import a.b\<newline>class B\<newline>\<newline>\<newline>'' = 2
   \<and> thrown (applyMergeFiles exampleEnv packageMergeSection False kotlinOrganizer)
       = Some (TypeError ''sourceFiles.map is not a function'')
   \<and> content (files (final (applyMergeFiles exampleEnv packageMergeSection False kotlinOrganizer)) ! 2)
       = ''import a.b\<newline>class A\<newline>import a.b\<newline>class B\<newline>\<newline>\<newline>''"
proof -
  have m: "mergeFileContents [kotlinA, kotlinB] (StringValue ''package_merge'')
     = Inr ''import a.b\<newline>class A\<newline>import a.b\<newline>class B\<newline>\<newline>\<newline>''"
    by (simp add: mergeFileContents_def kotlinA_def kotlinB_def emptyFile_def
        packageDeclarationOf_def importsOf_def cleanContent_def nonEmpty_def trim_def
        trimStart_def trimEnd_def regex_eval)
  have c: "countOccurrences ''import a.b'' ''import a.b\<newline>class A\<newline>import a.b\<newline>class B\<newline>\<newline>\<newline>'' = 2"
    by (simp add: startsWith_def)
  have f: "files kotlinOrganizer
      = [kotlinA\<lparr>fileId := generateId exampleEnv 0, originalPath := Some ''A.kt'',
                  currentPath := ''A.kt''\<rparr>,
         kotlinB\<lparr>fileId := generateId exampleEnv 1, originalPath := Some ''B.kt'',
                  currentPath := ''B.kt''\<rparr>]"
    by (simp add: kotlinOrganizer_def loadFiles_def newOrganizer_def kotlinA_def kotlinB_def
        emptyFile_def)
  have fa: "findFileByName (files kotlinOrganizer) ''A.kt'' = Some 0"
    and fb: "findFileByName (files kotlinOrganizer) ''B.kt'' = Some (Suc 0)"
    by (simp_all add: f findFileByName_def matchesName_def kotlinA_def kotlinB_def emptyFile_def)
  have m': "mergeFileContents [files kotlinOrganizer ! 0, files kotlinOrganizer ! Suc 0] (StringValue ''package_merge'')
     = Inr ''import a.b\<newline>class A\<newline>import a.b\<newline>class B\<newline>\<newline>\<newline>''"
    by (simp add: f mergeFileContents_def kotlinA_def kotlinB_def emptyFile_def
        packageDeclarationOf_def importsOf_def cleanContent_def nonEmpty_def trim_def
        trimStart_def trimEnd_def regex_eval)
  have st: "mergeStrategyOf packageMergeSection = StringValue ''package_merge''"
    by (simp add: mergeStrategyOf_def packageMergeSection_def)
  have l: "length (files kotlinOrganizer) = 2"
    by (simp add: f)
  have g: "\<And>cfg. mergeStrategyOf cfg = StringValue ''package_merge'' \<Longrightarrow>
      thrown (forEach (mergeEntry exampleEnv False cfg)
        [(''AB.kt'', NameArray [''A.kt'', ''B.kt'']), (''mergeStrategy'', StringValue ''package_merge'')]
        kotlinOrganizer) = Some (TypeError ''sourceFiles.map is not a function'')
    \<and> content (files (final (forEach (mergeEntry exampleEnv False cfg)
        [(''AB.kt'', NameArray [''A.kt'', ''B.kt'']), (''mergeStrategy'', StringValue ''package_merge'')]
        kotlinOrganizer)) ! 2)
       = ''import a.b\<newline>class A\<newline>import a.b\<newline>class B\<newline>\<newline>\<newline>''"
    by (simp add: mergeEntry_def fa fb m' Let_def logOperation_def markMergedSource_def l nth_append
        List.map_filter_def)
  have a: "thrown (applyMergeFiles exampleEnv packageMergeSection False kotlinOrganizer)
       = Some (TypeError ''sourceFiles.map is not a function'')
     \<and> content (files (final (applyMergeFiles exampleEnv packageMergeSection False kotlinOrganizer)) ! 2)
       = ''import a.b\<newline>class A\<newline>import a.b\<newline>class B\<newline>\<newline>\<newline>''"
    using g[OF st] unfolding applyMergeFiles_def
    by (simp add: packageMergeSection_def)
  from m c a show ?thesis by simp
qed

end
